theory Spec2Isabelle
  imports Complex_Main
begin

section \<open>Dense arrays\<close>

text \<open>
  The notebooks compute with two-dimensional NumPy arrays of real or complex numbers.
  An array is modelled with its shape and its rows; the entries are exact complex
  numbers, so the statements about arrays are about exact arithmetic, not about
  rounding. The energy criterion, which compares rounded quotients, is modelled in
  double precision.
\<close>

record ndarray =
  nrows :: nat
  ncols :: nat
  rows :: "complex list list"

datatype error =
    ValueError string
  | LinAlgError
  | InversionError
  | RankError
  | UnboundLocalError
  | AttributeError

definition mk :: "nat \<Rightarrow> nat \<Rightarrow> (nat \<Rightarrow> nat \<Rightarrow> complex) \<Rightarrow> ndarray" where
  "mk r c f = \<lparr>nrows = r, ncols = c, rows = map (\<lambda>i. map (f i) [0..<c]) [0..<r]\<rparr>"

definition elem :: "ndarray \<Rightarrow> nat \<Rightarrow> nat \<Rightarrow> complex" where
  "elem A i j = rows A ! i ! j"

definition wf_nd :: "ndarray \<Rightarrow> bool" where
  "wf_nd A \<longleftrightarrow> length (rows A) = nrows A \<and> list_all (\<lambda>r. length r = ncols A) (rows A)"

definition has_shape :: "ndarray \<Rightarrow> nat \<Rightarrow> nat \<Rightarrow> bool" where
  "has_shape A r c \<longleftrightarrow> wf_nd A \<and> nrows A = r \<and> ncols A = c"

text \<open>\<open>A.T\<close>, \<open>np.conjugate(A)\<close>, \<open>np.eye(n)\<close>, \<open>s * A\<close> and \<open>np.diag(b)\<close> of a 1-D \<open>b\<close>.\<close>

definition transpose_nd :: "ndarray \<Rightarrow> ndarray" where
  "transpose_nd A = mk (ncols A) (nrows A) (\<lambda>i j. elem A j i)"

definition conjugate :: "ndarray \<Rightarrow> ndarray" where
  "conjugate A = mk (nrows A) (ncols A) (\<lambda>i j. cnj (elem A i j))"

definition eye :: "nat \<Rightarrow> ndarray" where
  "eye n = mk n n (\<lambda>i j. if i = j then 1 else 0)"

definition scalar_mul :: "complex \<Rightarrow> ndarray \<Rightarrow> ndarray" where
  "scalar_mul s A = mk (nrows A) (ncols A) (\<lambda>i j. s * elem A i j)"

definition diag :: "complex list \<Rightarrow> ndarray" where
  "diag b = mk (length b) (length b) (\<lambda>i j. if i = j then b ! i else 0)"

text \<open>
  \<open>A - B\<close> follows NumPy's broadcasting: two extents are compatible when they are equal
  or one of them is 1, and an extent of 1 is stretched.
\<close>

definition broadcastable :: "nat \<Rightarrow> nat \<Rightarrow> bool" where
  "broadcastable a b \<longleftrightarrow> a = b \<or> a = 1 \<or> b = 1"

definition bdim :: "nat \<Rightarrow> nat \<Rightarrow> nat" where
  "bdim a b = (if a = 1 then b else a)"

definition bidx :: "nat \<Rightarrow> nat \<Rightarrow> nat" where
  "bidx d i = (if d = 1 then 0 else i)"

definition subtract :: "ndarray \<Rightarrow> ndarray \<Rightarrow> error + ndarray" where
  "subtract A B =
     (if broadcastable (nrows A) (nrows B) \<and> broadcastable (ncols A) (ncols B)
      then Inr (mk (bdim (nrows A) (nrows B)) (bdim (ncols A) (ncols B))
                  (\<lambda>i j. elem A (bidx (nrows A) i) (bidx (ncols A) j)
                       - elem B (bidx (nrows B) i) (bidx (ncols B) j)))
      else Inl (ValueError ''operands could not be broadcast together''))"

text \<open>
  The matrix product. \<open>matprod\<close> is the product itself; \<open>matmul\<close> is \<open>np.matmul\<close> and
  the operator \<open>@\<close>, which raise \<open>ValueError\<close> when the inner extents differ.
\<close>

definition matprod :: "ndarray \<Rightarrow> ndarray \<Rightarrow> ndarray" where
  "matprod A B = mk (nrows A) (ncols B)
     (\<lambda>i j. sum_list (map (\<lambda>k. elem A i k * elem B k j) [0..<ncols A]))"

definition matmul :: "ndarray \<Rightarrow> ndarray \<Rightarrow> error + ndarray" where
  "matmul A B = (if ncols A = nrows B then Inr (matprod A B)
                 else Inl (ValueError ''matmul: mismatch in core dimension''))"

text \<open>\<open>np.hstack\<close> of a list of arrays with equally many rows.\<close>

definition hstack :: "ndarray list \<Rightarrow> error + ndarray" where
  "hstack Ms =
     (if Ms = [] then Inl (ValueError ''need at least one array to concatenate'')
      else if list_all (\<lambda>M. nrows M = nrows (hd Ms)) Ms
      then Inr \<lparr>nrows = nrows (hd Ms), ncols = sum_list (map ncols Ms),
                rows = map (\<lambda>i. concat (map (\<lambda>M. rows M ! i) Ms)) [0..<nrows (hd Ms)]\<rparr>
      else Inl (ValueError ''all the input array dimensions except for the concatenation axis must match exactly''))"

text \<open>
  \<open>U[:, :k]\<close> for a Python integer \<open>k\<close>: a negative \<open>k\<close> counts from the end, and the
  bound is clipped to the number of columns.
\<close>

definition slice_stop :: "int \<Rightarrow> nat \<Rightarrow> nat" where
  "slice_stop k n = (if 0 \<le> k then min (nat k) n else nat (int n + k))"

definition take_cols :: "ndarray \<Rightarrow> int \<Rightarrow> ndarray" where
  "take_cols U k = mk (nrows U) (slice_stop k (ncols U)) (elem U)"

section \<open>The external numerical routines\<close>

text \<open>
  The dense solver behind pyMOR's \<open>solve\<close>, \<open>np.linalg.inv\<close>, \<open>np.linalg.svd\<close>,
  pyMOR's \<open>pod\<close> and \<open>gram_schmidt\<close> are library routines. The functions of the
  notebooks take them as parameters; a theorem states what it needs of them as a
  hypothesis about the arrays they are called on.
\<close>

type_synonym solver = "ndarray \<Rightarrow> ndarray \<Rightarrow> error + ndarray"
type_synonym inverter = "ndarray \<Rightarrow> error + ndarray"
type_synonym svd_routine = "ndarray \<Rightarrow> error + (ndarray \<times> real list \<times> ndarray)"
type_synonym pod_routine = "ndarray \<Rightarrow> int option \<Rightarrow> real \<Rightarrow> real \<Rightarrow> error + (ndarray \<times> real list)"
type_synonym orthonormalizer = "ndarray \<Rightarrow> error + ndarray"

text \<open>
  Exact routines for small systems, to run the notebooks' functions on concrete inputs:
  the inverse of a matrix of order one or two by the adjugate formula, the solver that
  multiplies by it, and the singular value decomposition \<open>[[x]] = [[1]] [[1]] [[x]]\<close>
  of a matrix of order one whose entry has modulus one.
\<close>

definition det2 :: "ndarray \<Rightarrow> complex" where
  "det2 G = elem G 0 0 * elem G 1 1 - elem G 0 1 * elem G 1 0"

definition small_inv :: inverter where
  "small_inv G =
     (if nrows G = 1 \<and> ncols G = 1 \<and> elem G 0 0 \<noteq> 0
      then Inr (mk 1 1 (\<lambda>i j. 1 / elem G 0 0))
      else if nrows G = 2 \<and> ncols G = 2 \<and> det2 G \<noteq> 0
      then Inr (mk 2 2 (\<lambda>i j. (if i = j then elem G (1 - i) (1 - j) else - elem G i j) / det2 G))
      else Inl LinAlgError)"

definition small_solver :: solver where
  "small_solver G R =
     (case small_inv G of
        Inl e \<Rightarrow> Inl InversionError
      | Inr Gi \<Rightarrow> if nrows R = nrows G then Inr (matprod Gi R) else Inl InversionError)"

definition unit_svd :: svd_routine where
  "unit_svd S =
     (if nrows S = 1 \<and> ncols S = 1 \<and> elem S 0 0 * cnj (elem S 0 0) = 1
      then Inr (eye 1, [1], S)
      else Inl LinAlgError)"

section \<open>Stationary models\<close>

text \<open>
  A \<open>NumpyMatrixOperator\<close> wraps a matrix; the functions of the notebooks accept either
  a NumPy array or such an operator and dispatch on \<open>isinstance\<close>. The operators of this
  development wrap dense NumPy arrays, as do those that \<open>MatrixModel\<close> builds with
  \<open>NumpyMatrixOperator(A)\<close>: \<open>to_matrix\<close> of such an operator is the array it wraps. The
  adjoint \<open>op.H\<close> of a matrix operator is its conjugate transpose.
\<close>

datatype operand = NdArray ndarray | NumpyMatrixOperator ndarray

fun to_matrix :: "operand \<Rightarrow> ndarray" where
  "to_matrix (NdArray M) = M"
| "to_matrix (NumpyMatrixOperator M) = M"

text \<open>
  The conversion \<open>A if isinstance(A, np.ndarray) else to_matrix(A).toarray()\<close> that
  \<open>TF_exact\<close> and \<open>exact\<close> apply to \<open>A\<close>, and to \<open>A\<close> only. The array that \<open>to_matrix\<close>
  returns for an operator over a dense array has no attribute \<open>toarray\<close>, so for such an
  operator the conversion raises an \<open>AttributeError\<close>.
\<close>

fun to_matrix_toarray :: "operand \<Rightarrow> error + ndarray" where
  "to_matrix_toarray (NdArray M) = Inr M"
| "to_matrix_toarray (NumpyMatrixOperator M) = Inl AttributeError"

definition adjoint :: "ndarray \<Rightarrow> ndarray" where
  "adjoint M = conjugate (transpose_nd M)"

datatype parameter_functional =
    ProjectionParameterFunctional
  | ConjugateParameterFunctional
  | Coefficient complex

fun evaluate :: "parameter_functional \<Rightarrow> complex \<Rightarrow> complex" where
  "evaluate ProjectionParameterFunctional s = s"
| "evaluate ConjugateParameterFunctional s = cnj s"
| "evaluate (Coefficient c) s = c"

text \<open>
  A \<open>StationaryModel\<close> whose operator is a \<open>LincombOperator\<close>: the operators and their
  coefficient functionals, the right-hand side and the optional output functional.
\<close>

record stationary_model =
  operators :: "ndarray list"
  coefficients :: "parameter_functional list"
  rhs :: ndarray
  output_functional :: "ndarray option"

definition add_nd :: "ndarray \<Rightarrow> ndarray \<Rightarrow> ndarray" where
  "add_nd A B = mk (nrows A) (ncols A) (\<lambda>i j. elem A i j + elem B i j)"

fun assemble_lincomb :: "ndarray list \<Rightarrow> complex list \<Rightarrow> ndarray" where
  "assemble_lincomb [M] [c] = scalar_mul c M"
| "assemble_lincomb (M # Ms) (c # cs) = add_nd (scalar_mul c M) (assemble_lincomb Ms cs)"
| "assemble_lincomb _ _ = mk 0 0 (\<lambda>i j. 0)"

definition assemble :: "stationary_model \<Rightarrow> complex \<Rightarrow> ndarray" where
  "assemble m s = assemble_lincomb (operators m) (map (\<lambda>f. evaluate f s) (coefficients m))"

definition solution_dim :: "stationary_model \<Rightarrow> nat" where
  "solution_dim m = (case operators m of [] \<Rightarrow> 0 | M # _ \<Rightarrow> ncols M)"

text \<open>
  Modelled from the spec: the solve and the output of a model (FullOrderSolver and
  ReducedSolver). \<open>solve\<close> is a dense direct solve of the assembled operator against the
  right-hand side; it returns a vector array holding the one solution vector, and it
  propagates the solver's error. \<open>model_output\<close> (the method \<open>output\<close>) applies the output functional to the solution.
\<close>

definition solve :: "solver \<Rightarrow> stationary_model \<Rightarrow> complex \<Rightarrow> error + ndarray" where
  "solve slv m s =
     (case slv (assemble m s) (rhs m) of
        Inl e \<Rightarrow> Inl e
      | Inr x \<Rightarrow> Inr (mk 1 (solution_dim m) (\<lambda>i j. elem x j 0)))"

definition model_output :: "solver \<Rightarrow> stationary_model \<Rightarrow> complex \<Rightarrow> error + ndarray" where
  "model_output slv m s =
     (case solve slv m s of
        Inl e \<Rightarrow> Inl e
      | Inr u \<Rightarrow>
          (case output_functional m of
             None \<Rightarrow> Inr (mk 1 0 (\<lambda>i j. 0))
           | Some C \<Rightarrow> Inr (transpose_nd (matprod C (transpose_nd u)))))"

text \<open>A vector array is the array of its vectors, one per row.\<close>

definition empty_va :: "nat \<Rightarrow> ndarray" where
  "empty_va n = mk 0 n (\<lambda>i j. 0)"

definition append_va :: "ndarray \<Rightarrow> ndarray \<Rightarrow> ndarray" where
  "append_va X u = mk (nrows X + nrows u) (ncols X)
     (\<lambda>i j. if i < nrows X then elem X i j else elem u (i - nrows X) j)"

text \<open>
  The loops \<open>for s in training_set: snapshots.append(model.solve(s))\<close>, over one model
  and over the pair of models; the first failing solve ends the loop.
\<close>

fun solve_all :: "solver \<Rightarrow> stationary_model \<Rightarrow> complex list \<Rightarrow> ndarray \<Rightarrow> error + ndarray" where
  "solve_all slv m [] acc = Inr acc"
| "solve_all slv m (s # ss) acc =
     (case solve slv m s of
        Inl e \<Rightarrow> Inl e
      | Inr u \<Rightarrow> solve_all slv m ss (append_va acc u))"

fun solve_all2 :: "solver \<Rightarrow> stationary_model \<Rightarrow> stationary_model \<Rightarrow> complex list
    \<Rightarrow> ndarray \<Rightarrow> ndarray \<Rightarrow> error + (ndarray \<times> ndarray)" where
  "solve_all2 slv mV mW [] accV accW = Inr (accV, accW)"
| "solve_all2 slv mV mW (s # ss) accV accW =
     (case solve slv mV s of
        Inl e \<Rightarrow> Inl e
      | Inr u \<Rightarrow>
          (case solve slv mW s of
             Inl e \<Rightarrow> Inl e
           | Inr w \<Rightarrow> solve_all2 slv mV mW ss (append_va accV u) (append_va accW w)))"

text \<open>
  Modelled from the spec: the Galerkin reductor (\<open>StationaryRBReductor\<close>). With the basis
  matrix \<open>V\<close> whose columns are the basis vectors, every operator \<open>M\<close> of the linear
  combination becomes \<open>V\<^sup>t M V\<close>, the right-hand side \<open>V\<^sup>t B\<close> and the output map
  \<open>C V\<close>; the coefficient functionals are kept. For an orthonormal basis the projected
  identity is the identity, which gives the spec's \<open>s I - A\<^sub>r\<close>. The reductor keeps the
  basis, and \<open>reconstruct\<close> maps reduced vectors back: \<open>basis \<cdot> reducedVector\<close>.
\<close>

record reductor =
  fom :: stationary_model
  RB :: ndarray

definition reduce :: "reductor \<Rightarrow> stationary_model" where
  "reduce red =
     (let V = transpose_nd (RB red); m = fom red in
      \<lparr>operators = map (\<lambda>M. matprod (transpose_nd V) (matprod M V)) (operators m),
       coefficients = coefficients m,
       rhs = matprod (transpose_nd V) (rhs m),
       output_functional = map_option (\<lambda>C. matprod C V) (output_functional m)\<rparr>)"

definition reconstruct :: "reductor \<Rightarrow> ndarray \<Rightarrow> ndarray" where
  "reconstruct red u = matprod u (RB red)"

section \<open>The transfer function and the offline phase\<close>

text \<open>
  \<open>TF_exact(A, B, C, s)\<close>: the conversions of the three arguments, then the direct
  evaluation \<open>C @ inv(s * eye(n) - A) @ B\<close>.
\<close>

definition TF_exact :: "inverter \<Rightarrow> operand \<Rightarrow> operand \<Rightarrow> operand \<Rightarrow> complex \<Rightarrow> error + ndarray" where
  "TF_exact linalg_inv A B C s =
     (case to_matrix_toarray A of
        Inl e \<Rightarrow> Inl e
      | Inr A' \<Rightarrow>
          (let B' = to_matrix B; C' = to_matrix C in
           case subtract (scalar_mul s (eye (nrows A'))) A' of
             Inl e \<Rightarrow> Inl e
           | Inr G \<Rightarrow>
               (case linalg_inv G of
                  Inl e \<Rightarrow> Inl e
                | Inr Gi \<Rightarrow>
                    (case matmul C' Gi of
                       Inl e \<Rightarrow> Inl e
                     | Inr CG \<Rightarrow> matmul CG B'))))"

text \<open>
  \<open>MatrixModel(A, B, C)\<close> of the first notebook: the model of \<open>(s I - A) v = B\<close> with
  output functional \<open>C\<close>. The function itself checks no shape. What pyMOR's
  constructors assert of the shapes is not under \<open>src\<close> and is not modelled: the record
  is the model that the call builds whenever those constructors return.
\<close>

definition MatrixModel_TF :: "operand \<Rightarrow> operand \<Rightarrow> operand \<Rightarrow> stationary_model" where
  "MatrixModel_TF A B C =
     (let dim = (case A of NdArray M \<Rightarrow> nrows M | NumpyMatrixOperator M \<Rightarrow> nrows (to_matrix A));
          A_op = (case A of NdArray M \<Rightarrow> M | NumpyMatrixOperator M \<Rightarrow> M);
          B_op = (case B of NdArray M \<Rightarrow> M | NumpyMatrixOperator M \<Rightarrow> M);
          C_op = (case C of NdArray M \<Rightarrow> M | NumpyMatrixOperator M \<Rightarrow> M);
          I_op = eye dim
      in \<lparr>operators = [I_op, A_op],
          coefficients = [ProjectionParameterFunctional, Coefficient (- 1)],
          rhs = B_op,
          output_functional = Some C_op\<rparr>)"

text \<open>
  \<open>MatrixModel(A, B, C)\<close> of the second notebook: the pair of models of
  \<open>(s I - A) v = B\<close> and of \<open>(s I - A)\<^sup>* v = C\<^sup>T\<close>. The right-hand side of the second
  model is \<open>C.T\<close> for an array and \<open>C.H\<close> for an operator. As in the first notebook, the
  function checks no shape, and the assertions of pyMOR's constructors are not modelled.
\<close>

definition MatrixModel :: "operand \<Rightarrow> operand \<Rightarrow> operand \<Rightarrow> stationary_model \<times> stationary_model" where
  "MatrixModel A B C =
     (let dim = (case A of NdArray M \<Rightarrow> nrows M | NumpyMatrixOperator M \<Rightarrow> nrows (to_matrix A));
          A_op = (case A of NdArray M \<Rightarrow> M | NumpyMatrixOperator M \<Rightarrow> M);
          B_op = (case B of NdArray M \<Rightarrow> M | NumpyMatrixOperator M \<Rightarrow> M);
          C_op = (case C of NdArray M \<Rightarrow> transpose_nd M | NumpyMatrixOperator M \<Rightarrow> adjoint M);
          I_op = eye dim;
          model_V = \<lparr>operators = [I_op, A_op],
                     coefficients = [ProjectionParameterFunctional, Coefficient (- 1)],
                     rhs = B_op, output_functional = None\<rparr>;
          model_W = \<lparr>operators = [I_op, adjoint A_op],
                     coefficients = [ConjugateParameterFunctional, Coefficient (- 1)],
                     rhs = C_op, output_functional = None\<rparr>
      in (model_V, model_W))"

text \<open>
  \<open>np.random.uniform(low, high, size=(n,))\<close> reads the generator that NumPy keeps for
  the whole process. The state of that generator is modelled by the sequence of
  unit-interval variates it is going to deliver; a call consumes \<open>n\<close> of them and
  returns \<open>low + (high - low) * u\<close> for each. A negative \<open>n\<close> is a \<open>ValueError\<close>.
\<close>

type_synonym random_state = "nat \<Rightarrow> real"

definition random_uniform :: "real \<Rightarrow> real \<Rightarrow> int \<Rightarrow> random_state \<Rightarrow> error + (real list \<times> random_state)" where
  "random_uniform low high n g =
     (if n < 0 then Inl (ValueError ''negative dimensions are not allowed'')
      else Inr (map (\<lambda>i. low + (high - low) * g i) [0..<nat n], \<lambda>i. g (i + nat n)))"

text \<open>
  The training set of \<open>TFROM\<close>: a tuple \<open>rng\<close> of two bounds gives real parameters, one
  of four bounds complex ones; with any other length \<open>training_set\<close> is never assigned.
\<close>

definition TFROM_training_set :: "real list \<Rightarrow> int \<Rightarrow> random_state \<Rightarrow> error + (complex list \<times> random_state)" where
  "TFROM_training_set rng snap g =
     (if length rng = 2 then
        (case random_uniform (rng ! 0) (rng ! 1) snap g of
           Inl e \<Rightarrow> Inl e
         | Inr (xs, g1) \<Rightarrow> Inr (map complex_of_real xs, g1))
      else if length rng = 4 then
        (case random_uniform (rng ! 0) (rng ! 1) snap g of
           Inl e \<Rightarrow> Inl e
         | Inr (xs, g1) \<Rightarrow>
             (case random_uniform (rng ! 2) (rng ! 3) snap g1 of
                Inl e \<Rightarrow> Inl e
              | Inr (ys, g2) \<Rightarrow> Inr (map2 (\<lambda>x y. complex_of_real x + \<i> * complex_of_real y) xs ys, g2)))
      else Inl UnboundLocalError)"

text \<open>
  \<open>TFROM(model, rng, snap, rorder, atol, rtol)\<close>, the offline phase: the model's
  matrices, the training set drawn from the process-wide generator, the snapshots, the
  POD basis and the Galerkin projection. The result is the reduced model together with
  the state in which the call leaves the generator.
\<close>

record lti_model =
  lti_A :: ndarray
  lti_B :: ndarray
  lti_C :: ndarray

definition TFROM :: "solver \<Rightarrow> pod_routine \<Rightarrow> lti_model \<Rightarrow> real list \<Rightarrow> int \<Rightarrow> int option
    \<Rightarrow> real \<Rightarrow> real \<Rightarrow> random_state \<Rightarrow> error + (stationary_model \<times> random_state)" where
  "TFROM slv pod model rng snap rorder atol rtol g =
     (let model_TF = MatrixModel_TF (NumpyMatrixOperator (lti_A model))
                        (NumpyMatrixOperator (lti_B model)) (NumpyMatrixOperator (lti_C model)) in
      case TFROM_training_set rng snap g of
        Inl e \<Rightarrow> Inl e
      | Inr (training_set, g') \<Rightarrow>
          (case solve_all slv model_TF training_set (empty_va (solution_dim model_TF)) of
             Inl e \<Rightarrow> Inl e
           | Inr snapshot_matrix \<Rightarrow>
               (case pod snapshot_matrix rorder atol rtol of
                  Inl e \<Rightarrow> Inl e
                | Inr (pod_basis, svals) \<Rightarrow>
                    Inr (reduce \<lparr>fom = model_TF, RB = pod_basis\<rparr>, g'))))"

section \<open>Basis extraction\<close>

text \<open>
  The cell that builds the reduced basis with NumPy: the singular value decomposition,
  the check of the number of modes against \<open>min(snapshot_matrix.shape)\<close>, and the first
  columns of \<open>U\<close>.
\<close>

definition pod_basis_numpy :: "svd_routine \<Rightarrow> ndarray \<Rightarrow> int \<Rightarrow> error + ndarray" where
  "pod_basis_numpy linalg_svd snapshot_matrix modes_numpy =
     (case linalg_svd snapshot_matrix of
        Inl e \<Rightarrow> Inl e
      | Inr (U, D, Vt) \<Rightarrow>
          if int (min (nrows snapshot_matrix) (ncols snapshot_matrix)) < modes_numpy
          then Inl (ValueError ''modes cannot exceed the rank of the snapshot matrix.'')
          else Inr (take_cols U modes_numpy))"

text \<open>
  The energy criterion is computed on \<open>float64\<close> arrays. A double is modelled by the
  real number it denotes, or by an infinity or \<open>nan\<close>; the sign of a zero, which no
  operation of the cell can tell, is not modelled. Every arithmetic operation returns
  the double nearest to its exact result, ties going to the even significand
  (IEEE 754 \<open>binary64\<close>: 53 significant bits, exponents from \<open>-1022\<close> to \<open>1023\<close>, gradual
  underflow, overflow to an infinity).
\<close>

datatype npfloat = Finite real | PosInf | NegInf | NaN

definition pow2 :: "int \<Rightarrow> real" where
  "pow2 q = (if 0 \<le> q then 2 ^ nat q else 1 / 2 ^ nat (- q))"

text \<open>The binary exponent \<open>\<lfloor>log\<^sub>2 x\<rfloor>\<close> of a positive real, by repeated halving or doubling.\<close>

function exponent_up :: "real \<Rightarrow> int \<Rightarrow> int" where
  "exponent_up x e = (if x < 2 then e else exponent_up (x / 2) (e + 1))"
  by pat_completeness auto
termination
proof (relation "measure (\<lambda>(x, e). nat \<lfloor>x\<rfloor>)")
  show "wf (measure (\<lambda>(x, e). nat \<lfloor>x\<rfloor>))" by simp
next
  fix x :: real and e :: int
  assume "\<not> x < 2"
  then have x: "2 \<le> x" by simp
  have "x - 1 < of_int \<lfloor>x\<rfloor>" by linarith
  moreover have "x / 2 \<le> x - 1" using x by simp
  ultimately have "x / 2 < of_int \<lfloor>x\<rfloor>" by linarith
  then have lt: "\<lfloor>x / 2\<rfloor> < \<lfloor>x\<rfloor>" by (simp add: floor_less_iff)
  have "2 \<le> \<lfloor>x\<rfloor>" using x by (simp add: le_floor_iff)
  then have "nat \<lfloor>x / 2\<rfloor> < nat \<lfloor>x\<rfloor>" using lt by linarith
  then show "((x / 2, e + 1), (x, e)) \<in> measure (\<lambda>(x, e). nat \<lfloor>x\<rfloor>)" by simp
qed

function exponent_down :: "real \<Rightarrow> int \<Rightarrow> int" where
  "exponent_down x e = (if x \<le> 0 \<or> 1 \<le> x then e else exponent_down (2 * x) (e - 1))"
  by pat_completeness auto
termination
proof (relation "measure (\<lambda>(x, e). nat \<lceil>1 / x\<rceil>)")
  show "wf (measure (\<lambda>(x, e). nat \<lceil>1 / x\<rceil>))" by simp
next
  fix x :: real and e :: int
  assume "\<not> (x \<le> 0 \<or> 1 \<le> x)"
  then have x: "0 < x" "x < 1" by simp_all
  define y where "y = 1 / x"
  have y: "1 < y" using x by (simp add: y_def)
  have c: "2 \<le> \<lceil>y\<rceil>" using y by linarith
  have h: "1 / (2 * x) = y / 2" by (simp add: y_def)
  have "y \<le> of_int \<lceil>y\<rceil>" by (rule le_of_int_ceiling)
  moreover have "(2::real) \<le> of_int \<lceil>y\<rceil>" using c by linarith
  ultimately have "y / 2 \<le> of_int \<lceil>y\<rceil> - 1" by linarith
  then have "y / 2 \<le> of_int (\<lceil>y\<rceil> - 1)" by simp
  then have "\<lceil>y / 2\<rceil> \<le> \<lceil>y\<rceil> - 1" by (simp only: ceiling_le_iff)
  then have "nat \<lceil>y / 2\<rceil> < nat \<lceil>y\<rceil>" using c by linarith
  then show "((2 * x, e - 1), (x, e)) \<in> measure (\<lambda>(x, e). nat \<lceil>1 / x\<rceil>)"
    by (simp add: h y_def)
qed

definition exponent :: "real \<Rightarrow> int" where
  "exponent x = (if 1 \<le> x then exponent_up x 0 else exponent_down x 0)"

definition round_half_even :: "real \<Rightarrow> int" where
  "round_half_even t =
     (let f = \<lfloor>t\<rfloor>; d = t - of_int f in
      if d < 1 / 2 then f else if 1 / 2 < d then f + 1 else if even f then f else f + 1)"

text \<open>
  Rounding a real to the nearest double: the doubles near \<open>x\<close> are the multiples of
  \<open>2\<^sup>q\<close>, where \<open>q\<close> is the exponent of \<open>x\<close> less 52, and at least \<open>-1074\<close>.
\<close>

definition round_double :: "real \<Rightarrow> npfloat" where
  "round_double x =
     (if x = 0 then Finite 0
      else
        (let q = max (exponent \<bar>x\<bar> - 52) (- 1074);
             y = of_int (round_half_even (x / pow2 q)) * pow2 q in
         if pow2 1024 \<le> y then PosInf
         else if y \<le> - pow2 1024 then NegInf
         else Finite y))"

text \<open>
  Addition and division of doubles. NumPy's division gives \<open>nan\<close> for \<open>0 / 0\<close> and an
  infinity for \<open>x / 0\<close>; a comparison with \<open>nan\<close> is false.
\<close>

fun fadd :: "npfloat \<Rightarrow> npfloat \<Rightarrow> npfloat" where
  "fadd (Finite a) (Finite b) = round_double (a + b)"
| "fadd NaN _ = NaN"
| "fadd _ NaN = NaN"
| "fadd PosInf NegInf = NaN"
| "fadd NegInf PosInf = NaN"
| "fadd PosInf _ = PosInf"
| "fadd _ PosInf = PosInf"
| "fadd NegInf _ = NegInf"
| "fadd _ NegInf = NegInf"

fun fdiv :: "npfloat \<Rightarrow> npfloat \<Rightarrow> npfloat" where
  "fdiv (Finite a) (Finite b) =
     (if b \<noteq> 0 then round_double (a / b)
      else if a = 0 then NaN else if 0 < a then PosInf else NegInf)"
| "fdiv NaN _ = NaN"
| "fdiv _ NaN = NaN"
| "fdiv (Finite a) _ = Finite 0"
| "fdiv PosInf (Finite b) = (if 0 \<le> b then PosInf else NegInf)"
| "fdiv NegInf (Finite b) = (if 0 \<le> b then NegInf else PosInf)"
| "fdiv _ _ = NaN"

definition np_ge :: "npfloat \<Rightarrow> real \<Rightarrow> bool" where
  "np_ge v t = (case v of Finite r \<Rightarrow> t \<le> r | PosInf \<Rightarrow> True | NegInf \<Rightarrow> False | NaN \<Rightarrow> False)"

text \<open>\<open>D**2\<close> on an array of doubles: every entry times itself, rounded.\<close>

definition np_square :: "real \<Rightarrow> npfloat" where
  "np_square d = round_double (d * d)"

text \<open>
  \<open>np.cumsum\<close> keeps the first entry and adds the following ones to the running sum,
  one after the other.
\<close>

fun cumsum_from :: "npfloat \<Rightarrow> npfloat list \<Rightarrow> npfloat list" where
  "cumsum_from acc [] = []"
| "cumsum_from acc (x # xs) = fadd acc x # cumsum_from (fadd acc x) xs"

fun cumsum :: "npfloat list \<Rightarrow> npfloat list" where
  "cumsum [] = []"
| "cumsum (x # xs) = x # cumsum_from x xs"

text \<open>
  \<open>np.argmax\<close> of a Boolean array is the index of its first \<open>True\<close>, 0 when there is
  none, and a \<open>ValueError\<close> on an empty array.
\<close>

fun first_true :: "bool list \<Rightarrow> nat" where
  "first_true [] = 0"
| "first_true (b # bs) = (if b then 0 else Suc (first_true bs))"

definition argmax_bool :: "bool list \<Rightarrow> error + nat" where
  "argmax_bool bs =
     (if bs = [] then Inl (ValueError ''attempt to get argmax of an empty sequence'')
      else if first_true bs < length bs then Inr (first_true bs) else Inr 0)"

text \<open>
  The cell \<open>cumulative_energy = np.cumsum(D**2) / np.sum(D**2)\<close>,
  \<open>m = np.argmax(cumulative_energy >= threshold) + 1\<close>. \<open>np.sum\<close> adds the squares in an
  order of its own, which the notebooks do not fix: the summation is the parameter
  \<open>np_sum\<close>.
\<close>

type_synonym summation = "npfloat list \<Rightarrow> npfloat"

definition energy_modes :: "summation \<Rightarrow> real list \<Rightarrow> real \<Rightarrow> error + nat" where
  "energy_modes np_sum D threshold =
     (let sq = map np_square D;
          cumulative_energy = map (\<lambda>c. fdiv c (np_sum sq)) (cumsum sq)
      in case argmax_bool (map (\<lambda>e. np_ge e threshold) cumulative_energy) of
           Inl e \<Rightarrow> Inl e
         | Inr i \<Rightarrow> Inr (i + 1))"

text \<open>A summation for concrete runs: from left to right, starting from zero.\<close>

definition sequential_sum :: summation where
  "sequential_sum xs = foldl fadd (Finite 0) xs"

text \<open>
  The energy of the first \<open>k\<close> singular values, the sum of their squares: in exact
  arithmetic, and as the cell accumulates it in doubles. The computed energy quotient
  is the quotient of the accumulated energy by the sum that \<open>np_sum\<close> returns.
\<close>

definition energy :: "real list \<Rightarrow> nat \<Rightarrow> real" where
  "energy D k = sum_list (map (\<lambda>d. d ^ 2) (take k D))"

definition float_energy :: "real list \<Rightarrow> nat \<Rightarrow> npfloat" where
  "float_energy D k =
     (case map np_square (take k D) of [] \<Rightarrow> Finite 0 | x # xs \<Rightarrow> foldl fadd x xs)"

definition energy_quotient :: "summation \<Rightarrow> real list \<Rightarrow> nat \<Rightarrow> npfloat" where
  "energy_quotient np_sum D k = fdiv (float_energy D k) (np_sum (map np_square D))"

text \<open>
  \<open>MatrixReductor(model_V, model_W, training_set, reduced_order_V, reduced_order_W)\<close>:
  the snapshots of both models, their singular value decompositions, the two rank
  checks, the bases \<open>U[:, :reduced_order]\<close> and the two Galerkin projections.
\<close>

definition MatrixReductor :: "solver \<Rightarrow> svd_routine \<Rightarrow> stationary_model \<Rightarrow> stationary_model
    \<Rightarrow> complex list \<Rightarrow> int \<Rightarrow> int
    \<Rightarrow> error + (stationary_model \<times> reductor \<times> stationary_model \<times> reductor)" where
  "MatrixReductor slv linalg_svd model_V model_W training_set reduced_order_V reduced_order_W =
     (case solve_all2 slv model_V model_W training_set
             (empty_va (solution_dim model_V)) (empty_va (solution_dim model_W)) of
        Inl e \<Rightarrow> Inl e
      | Inr (solution_snapshots_V, solution_snapshots_W) \<Rightarrow>
          (let snapshot_matrix_V = transpose_nd solution_snapshots_V;
               snapshot_matrix_W = transpose_nd solution_snapshots_W in
           case linalg_svd snapshot_matrix_V of
             Inl e \<Rightarrow> Inl e
           | Inr (U_V, D_V, Vt_V) \<Rightarrow>
               (case linalg_svd snapshot_matrix_W of
                  Inl e \<Rightarrow> Inl e
                | Inr (U_W, D_W, Vt_W) \<Rightarrow>
                    if int (min (nrows snapshot_matrix_V) (ncols snapshot_matrix_V)) < reduced_order_V
                    then Inl (ValueError '''reduced_order_V' cannot exceed the rank of the snapshot matrix.'')
                    else if int (min (nrows snapshot_matrix_W) (ncols snapshot_matrix_W)) < reduced_order_W
                    then Inl (ValueError '''reduced_order_W' cannot exceed the rank of the snapshot matrix.'')
                    else
                      (let pod_basis_V = transpose_nd (take_cols U_V reduced_order_V);
                           pod_basis_W = transpose_nd (take_cols U_W reduced_order_W);
                           pod_reductor_V = \<lparr>fom = model_V, RB = pod_basis_V\<rparr>;
                           pod_reductor_W = \<lparr>fom = model_W, RB = pod_basis_W\<rparr>
                       in Inr (reduce pod_reductor_V, pod_reductor_V,
                               reduce pod_reductor_W, pod_reductor_W)))))"

section \<open>Projection matrices and their orthogonalization\<close>

text \<open>
  A function with a \<open>numpy\<close> flag returns NumPy arrays when it is set, and pyMOR vector
  arrays, which hold the transposed data, otherwise.
\<close>

datatype vectors = Numpy ndarray | NumpyVectorArray ndarray

text \<open>
  \<open>ProjectionMatrices(pod_rom_V, pod_reductor_V, pod_rom_W, pod_reductor_W, mu, b, c,
  numpy)\<close>: the reduced solutions at the interpolation points, their reconstructions, and
  the scaling of the columns by \<open>diag(b)\<close> and \<open>diag(c)\<close>.
\<close>

definition ProjectionMatrices :: "solver \<Rightarrow> stationary_model \<Rightarrow> reductor \<Rightarrow> stationary_model
    \<Rightarrow> reductor \<Rightarrow> complex list \<Rightarrow> complex list \<Rightarrow> complex list \<Rightarrow> bool
    \<Rightarrow> error + (vectors \<times> vectors)" where
  "ProjectionMatrices slv pod_rom_V pod_reductor_V pod_rom_W pod_reductor_W mu b c numpy =
     (case solve_all2 slv pod_rom_V pod_rom_W mu
             (empty_va (solution_dim pod_rom_V)) (empty_va (solution_dim pod_rom_W)) of
        Inl e \<Rightarrow> Inl e
      | Inr (reduced_solution_V, reduced_solution_W) \<Rightarrow>
          (let R_V = transpose_nd (reconstruct pod_reductor_V reduced_solution_V);
               R_W = transpose_nd (reconstruct pod_reductor_W reduced_solution_W);
               D_b = diag b;
               D_c = diag c in
           case matmul R_V D_b of
             Inl e \<Rightarrow> Inl e
           | Inr V_numpy \<Rightarrow>
               (case matmul R_W D_c of
                  Inl e \<Rightarrow> Inl e
                | Inr W_numpy \<Rightarrow>
                    if numpy then Inr (Numpy V_numpy, Numpy W_numpy)
                    else Inr (NumpyVectorArray (transpose_nd V_numpy),
                              NumpyVectorArray (transpose_nd W_numpy)))))"

text \<open>
  \<open>exact(A, B, C, mu, b, c, numpy)\<close>: the conversions of the arguments (that of \<open>A\<close>
  being the one of \<open>TF_exact\<close>), then the closed forms, column \<open>i\<close> being
  \<open>inv(s\<^sub>i I - A) B\<close> and \<open>conjugate(inv(s\<^sub>i I - A).T) C.T\<close>, scaled by the weights.
\<close>

fun exact_columns :: "inverter \<Rightarrow> ndarray \<Rightarrow> (ndarray \<Rightarrow> error + ndarray) \<Rightarrow> complex list
    \<Rightarrow> error + ndarray list" where
  "exact_columns linalg_inv A col [] = Inr []"
| "exact_columns linalg_inv A col (s # ss) =
     (case subtract (scalar_mul s (eye (nrows A))) A of
        Inl e \<Rightarrow> Inl e
      | Inr G \<Rightarrow>
          (case linalg_inv G of
             Inl e \<Rightarrow> Inl e
           | Inr Gi \<Rightarrow>
               (case col Gi of
                  Inl e \<Rightarrow> Inl e
                | Inr x \<Rightarrow>
                    (case exact_columns linalg_inv A col ss of
                       Inl e \<Rightarrow> Inl e
                     | Inr xs \<Rightarrow> Inr (x # xs)))))"

definition exact :: "inverter \<Rightarrow> operand \<Rightarrow> operand \<Rightarrow> operand \<Rightarrow> complex list \<Rightarrow> complex list
    \<Rightarrow> complex list \<Rightarrow> bool \<Rightarrow> error + (vectors \<times> vectors)" where
  "exact linalg_inv A B C mu b c numpy =
     (case to_matrix_toarray A of
        Inl e \<Rightarrow> Inl e
      | Inr A' \<Rightarrow>
          (let B' = to_matrix B; C' = to_matrix C;
               D_b = diag b; D_c = diag c in
           case exact_columns linalg_inv A' (\<lambda>Gi. matmul Gi B') mu of
             Inl e \<Rightarrow> Inl e
           | Inr cols_V \<Rightarrow>
               (case hstack cols_V of
                  Inl e \<Rightarrow> Inl e
                | Inr H_V \<Rightarrow>
                    (case matmul H_V D_b of
                       Inl e \<Rightarrow> Inl e
                     | Inr V_exact \<Rightarrow>
                         (case exact_columns linalg_inv A'
                                 (\<lambda>Gi. matmul (conjugate (transpose_nd Gi)) (transpose_nd C')) mu of
                            Inl e \<Rightarrow> Inl e
                          | Inr cols_W \<Rightarrow>
                              (case hstack cols_W of
                                 Inl e \<Rightarrow> Inl e
                               | Inr H_W \<Rightarrow>
                                   (case matmul H_W D_c of
                                      Inl e \<Rightarrow> Inl e
                                    | Inr W_exact \<Rightarrow>
                                        if numpy then Inr (Numpy V_exact, Numpy W_exact)
                                        else Inr (NumpyVectorArray (transpose_nd V_exact),
                                                  NumpyVectorArray (transpose_nd W_exact)))))))))"

text \<open>
  \<open>Gram(V, W, biort, numpy)\<close>: both vector arrays are orthonormalized; with \<open>biort\<close> the
  first is then multiplied by the inverse of \<open>W_orth.T @ V_orth\<close>.
\<close>

definition Gram :: "orthonormalizer \<Rightarrow> inverter \<Rightarrow> ndarray \<Rightarrow> ndarray \<Rightarrow> bool \<Rightarrow> bool
    \<Rightarrow> error + (vectors \<times> vectors)" where
  "Gram gram_schmidt linalg_inv V W biort numpy =
     (case gram_schmidt V of
        Inl e \<Rightarrow> Inl e
      | Inr Q_V \<Rightarrow>
          (case gram_schmidt W of
             Inl e \<Rightarrow> Inl e
           | Inr Q_W \<Rightarrow>
               (let V_orth = transpose_nd Q_V; W_orth = transpose_nd Q_W in
                if biort then
                  (case matmul (transpose_nd W_orth) V_orth of
                     Inl e \<Rightarrow> Inl e
                   | Inr WtV \<Rightarrow>
                       (case linalg_inv WtV of
                          Inl e \<Rightarrow> Inl e
                        | Inr M \<Rightarrow>
                            (case matmul V_orth M of
                               Inl e \<Rightarrow> Inl e
                             | Inr V_orth' \<Rightarrow>
                                 if numpy then Inr (Numpy V_orth', Numpy W_orth)
                                 else Inr (NumpyVectorArray (transpose_nd V_orth'),
                                           NumpyVectorArray (transpose_nd W_orth)))))
                else if numpy then Inr (Numpy V_orth, Numpy W_orth)
                else Inr (NumpyVectorArray Q_V, NumpyVectorArray Q_W))))"

section \<open>Orthonormalization\<close>

text \<open>
  Modelled from the spec: the Orthogonalizer's \<open>orthonormalize\<close> (pyMOR's
  \<open>gram_schmidt\<close>, which is not part of the notebooks). It is a modified Gram-Schmidt
  process over the vectors of the array: a candidate is orthogonalized against the
  vectors accepted so far, one after the other; a second pass is made when the drop of
  its norm indicates a loss of orthogonality; a candidate that is numerically zero is an
  error; otherwise it is normalized and accepted. The spec does not fix the test for the
  drop of the norm; it is the parameter \<open>norm_drop\<close>, applied to \<open>check_tol\<close>, the
  norm before the pass and the norm after it. The inner product is the Hermitian one.
\<close>

definition inner_vec :: "complex list \<Rightarrow> complex list \<Rightarrow> complex" where
  "inner_vec x y = sum_list (map2 (\<lambda>a b. cnj a * b) x y)"

definition norm_vec :: "complex list \<Rightarrow> real" where
  "norm_vec x = sqrt (sum_list (map (\<lambda>a. (cmod a) ^ 2) x))"

definition axpy :: "complex \<Rightarrow> complex list \<Rightarrow> complex list \<Rightarrow> complex list" where
  "axpy a x y = map2 (\<lambda>xi yi. yi + a * xi) x y"

definition scal :: "complex \<Rightarrow> complex list \<Rightarrow> complex list" where
  "scal a x = map (\<lambda>xi. a * xi) x"

fun orthogonalize_pass :: "complex list list \<Rightarrow> complex list \<Rightarrow> complex list" where
  "orthogonalize_pass [] v = v"
| "orthogonalize_pass (q # qs) v = orthogonalize_pass qs (axpy (- inner_vec q v) q v)"

definition orthonormalize_column :: "(real \<Rightarrow> real \<Rightarrow> real \<Rightarrow> bool) \<Rightarrow> real \<Rightarrow> real \<Rightarrow> real
    \<Rightarrow> complex list list \<Rightarrow> complex list \<Rightarrow> error + complex list" where
  "orthonormalize_column norm_drop atol rtol check_tol Q v =
     (let initial_norm = norm_vec v in
      if initial_norm \<le> atol then Inl RankError
      else
        (let v1 = orthogonalize_pass Q v; norm1 = norm_vec v1 in
         if norm1 \<le> rtol * initial_norm then Inl RankError
         else
           (let v2 = (if norm_drop check_tol initial_norm norm1 then orthogonalize_pass Q v1 else v1);
                norm2 = norm_vec v2 in
            if norm2 \<le> rtol * initial_norm then Inl RankError
            else Inr (scal (complex_of_real (1 / norm2)) v2))))"

fun gram_schmidt_loop :: "(real \<Rightarrow> real \<Rightarrow> real \<Rightarrow> bool) \<Rightarrow> real \<Rightarrow> real \<Rightarrow> real
    \<Rightarrow> complex list list \<Rightarrow> complex list list \<Rightarrow> error + complex list list" where
  "gram_schmidt_loop norm_drop atol rtol check_tol Q [] = Inr Q"
| "gram_schmidt_loop norm_drop atol rtol check_tol Q (v # vs) =
     (case orthonormalize_column norm_drop atol rtol check_tol Q v of
        Inl e \<Rightarrow> Inl e
      | Inr q \<Rightarrow> gram_schmidt_loop norm_drop atol rtol check_tol (Q @ [q]) vs)"

definition gram_schmidt :: "(real \<Rightarrow> real \<Rightarrow> real \<Rightarrow> bool) \<Rightarrow> real \<Rightarrow> real \<Rightarrow> real
    \<Rightarrow> ndarray \<Rightarrow> error + ndarray" where
  "gram_schmidt norm_drop atol rtol check_tol A =
     (case gram_schmidt_loop norm_drop atol rtol check_tol [] (rows A) of
        Inl e \<Rightarrow> Inl e
      | Inr Q \<Rightarrow> Inr \<lparr>nrows = length Q, ncols = ncols A, rows = Q\<rparr>)"

text \<open>The vectors of an array are orthonormal.\<close>

definition orthonormal_vectors :: "ndarray \<Rightarrow> bool" where
  "orthonormal_vectors Q \<longleftrightarrow>
     list_all (\<lambda>i. list_all (\<lambda>j. inner_vec (rows Q ! i) (rows Q ! j) = (if i = j then 1 else 0))
                 [0..<nrows Q]) [0..<nrows Q]"

section \<open>Auxiliary notions for the statements\<close>

text \<open>The result of a function with a \<open>numpy\<close> flag, from the array it computed.\<close>

definition wrap :: "bool \<Rightarrow> ndarray \<Rightarrow> vectors" where
  "wrap numpy X = (if numpy then Numpy X else NumpyVectorArray (transpose_nd X))"

text \<open>
  Two calls of the offline phase in one process, one after the other: the second call
  finds the generator in the state in which the first one left it. The training sets of
  both calls are returned.
\<close>

definition TFROM_twice :: "real list \<Rightarrow> int \<Rightarrow> random_state \<Rightarrow> error + (complex list \<times> complex list)" where
  "TFROM_twice rng snap g =
     (case TFROM_training_set rng snap g of
        Inl e \<Rightarrow> Inl e
      | Inr (first_set, g1) \<Rightarrow>
          (case TFROM_training_set rng snap g1 of
             Inl e \<Rightarrow> Inl e
           | Inr (second_set, g2) \<Rightarrow> Inr (first_set, second_set)))"

text \<open>A generator state for concrete runs: the draws \<open>1/2, 1/3, 1/4, \<dots>\<close>.\<close>

definition harmonic_draws :: random_state where
  "harmonic_draws i = 1 / real (i + 2)"

text \<open>A POD routine for concrete runs that returns a fixed basis.\<close>

definition fixed_pod :: "ndarray \<Rightarrow> pod_routine" where
  "fixed_pod basis S modes atol rtol = Inr (basis, [])"


text \<open>
  The cells of the second notebook that lead to the projection matrices: the pair of
  models, the two reduced models, and \<open>ProjectionMatrices\<close>.
\<close>

definition projection_matrices_of :: "solver \<Rightarrow> svd_routine \<Rightarrow> operand \<Rightarrow> operand \<Rightarrow> operand
    \<Rightarrow> complex list \<Rightarrow> int \<Rightarrow> int \<Rightarrow> complex list \<Rightarrow> complex list \<Rightarrow> complex list \<Rightarrow> bool
    \<Rightarrow> error + (vectors \<times> vectors)" where
  "projection_matrices_of slv linalg_svd A B C training_set reduced_order_V reduced_order_W mu b c numpy =
     (case MatrixModel A B C of
        (model_V, model_W) \<Rightarrow>
          (case MatrixReductor slv linalg_svd model_V model_W training_set reduced_order_V reduced_order_W of
             Inl e \<Rightarrow> Inl e
           | Inr (pod_rom_V, pod_reductor_V, pod_rom_W, pod_reductor_W) \<Rightarrow>
               ProjectionMatrices slv pod_rom_V pod_reductor_V pod_rom_W pod_reductor_W mu b c numpy))"

text \<open>A list of vectors of equal length that are pairwise orthonormal.\<close>

definition orthonormal_list :: "complex list list \<Rightarrow> bool" where
  "orthonormal_list L \<longleftrightarrow>
     (\<forall>i<length L. \<forall>j<length L.
        inner_vec (L ! i) (L ! j) = (if i = j then 1 else 0) \<and> length (L ! i) = length (L ! j))"

section \<open>Arrays: shapes, entries and the algebra of the product\<close>

lemma nrows_mk [simp]: "nrows (mk r c f) = r"
  by (simp add: mk_def)

lemma ncols_mk [simp]: "ncols (mk r c f) = c"
  by (simp add: mk_def)

lemma elem_mk [simp]: "i < r \<Longrightarrow> j < c \<Longrightarrow> elem (mk r c f) i j = f i j"
  by (simp add: mk_def elem_def)

lemma wf_nd_mk [simp]: "wf_nd (mk r c f)"
  by (simp add: wf_nd_def mk_def list_all_iff)

lemma mk_cong: "(\<And>i j. i < r \<Longrightarrow> j < c \<Longrightarrow> f i j = g i j) \<Longrightarrow> mk r c f = mk r c g"
  by (simp add: mk_def)

lemma mk_elem: "wf_nd A \<Longrightarrow> mk (nrows A) (ncols A) (elem A) = A"
proof -
  assume w: "wf_nd A"
  have "map (\<lambda>i. map (elem A i) [0..<ncols A]) [0..<nrows A] = rows A"
  proof (rule nth_equalityI)
    show "length (map (\<lambda>i. map (elem A i) [0..<ncols A]) [0..<nrows A]) = length (rows A)"
      using w by (simp add: wf_nd_def)
  next
    fix i assume "i < length (map (\<lambda>i. map (elem A i) [0..<ncols A]) [0..<nrows A])"
    then have i: "i < nrows A" by simp
    then have li: "length (rows A ! i) = ncols A" using w by (simp add: wf_nd_def list_all_length)
    have "map (elem A i) [0..<ncols A] = rows A ! i"
      by (rule nth_equalityI) (simp_all add: li elem_def)
    then show "map (\<lambda>i. map (elem A i) [0..<ncols A]) [0..<nrows A] ! i = rows A ! i"
      using i by simp
  qed
  then show ?thesis by (simp add: mk_def)
qed

lemma sum_list_upt: "sum_list (map f [0..<n]) = (\<Sum>k<n. f k)"
  by (simp add: interv_sum_list_conv_sum_set_nat atLeast0LessThan)

lemma nrows_matprod [simp]: "nrows (matprod A B) = nrows A"
  by (simp add: matprod_def)

lemma ncols_matprod [simp]: "ncols (matprod A B) = ncols B"
  by (simp add: matprod_def)

lemma wf_nd_matprod [simp]: "wf_nd (matprod A B)"
  by (simp add: matprod_def)

lemma elem_matprod: "i < nrows A \<Longrightarrow> j < ncols B \<Longrightarrow>
    elem (matprod A B) i j = (\<Sum>k<ncols A. elem A i k * elem B k j)"
  by (simp add: matprod_def sum_list_upt)

lemma nrows_transpose [simp]: "nrows (transpose_nd A) = ncols A"
  by (simp add: transpose_nd_def)

lemma ncols_transpose [simp]: "ncols (transpose_nd A) = nrows A"
  by (simp add: transpose_nd_def)

lemma wf_nd_transpose [simp]: "wf_nd (transpose_nd A)"
  by (simp add: transpose_nd_def)

lemma elem_transpose: "i < ncols A \<Longrightarrow> j < nrows A \<Longrightarrow> elem (transpose_nd A) i j = elem A j i"
  by (simp add: transpose_nd_def)

lemma nrows_eye [simp]: "nrows (eye n) = n"
  by (simp add: eye_def)

lemma ncols_eye [simp]: "ncols (eye n) = n"
  by (simp add: eye_def)

lemma nrows_add [simp]: "nrows (add_nd A B) = nrows A"
  by (simp add: add_nd_def)

lemma ncols_add [simp]: "ncols (add_nd A B) = ncols A"
  by (simp add: add_nd_def)

lemma nrows_scalar [simp]: "nrows (scalar_mul c A) = nrows A"
  by (simp add: scalar_mul_def)

lemma ncols_scalar [simp]: "ncols (scalar_mul c A) = ncols A"
  by (simp add: scalar_mul_def)

lemma elem_add: "i < nrows A \<Longrightarrow> j < ncols A \<Longrightarrow> elem (add_nd A B) i j = elem A i j + elem B i j"
  by (simp add: add_nd_def)

lemma elem_scalar: "i < nrows A \<Longrightarrow> j < ncols A \<Longrightarrow> elem (scalar_mul c A) i j = c * elem A i j"
  by (simp add: scalar_mul_def)

lemma transpose_transpose: "wf_nd A \<Longrightarrow> transpose_nd (transpose_nd A) = A"
proof -
  assume w: "wf_nd A"
  have "transpose_nd (transpose_nd A) = mk (nrows A) (ncols A) (elem A)"
    unfolding transpose_nd_def[of "transpose_nd A"]
    by (simp, intro mk_cong) (simp add: elem_transpose)
  then show ?thesis using mk_elem[OF w] by simp
qed

lemma transpose_1x1: "wf_nd X \<Longrightarrow> nrows X = 1 \<Longrightarrow> ncols X = 1 \<Longrightarrow> transpose_nd X = X"
proof -
  assume w: "wf_nd X" and r: "nrows X = 1" and c: "ncols X = 1"
  have "transpose_nd X = mk (nrows X) (ncols X) (elem X)"
    unfolding transpose_nd_def by (simp add: r c, intro mk_cong) simp
  then show ?thesis using mk_elem[OF w] by simp
qed

lemma matprod_assoc:
  assumes "ncols A = nrows B" "ncols B = nrows C"
  shows "matprod (matprod A B) C = matprod A (matprod B C)"
proof -
  have swap: "(\<Sum>k<ncols B. (\<Sum>l<ncols A. elem A i l * elem B l k) * elem C k j)
      = (\<Sum>l<ncols A. elem A i l * (\<Sum>k<ncols B. elem B l k * elem C k j))" for i j
  proof -
    have "(\<Sum>k<ncols B. (\<Sum>l<ncols A. elem A i l * elem B l k) * elem C k j)
        = (\<Sum>k<ncols B. \<Sum>l<ncols A. elem A i l * elem B l k * elem C k j)"
      by (simp add: sum_distrib_right)
    also have "\<dots> = (\<Sum>l<ncols A. \<Sum>k<ncols B. elem A i l * elem B l k * elem C k j)"
      by (rule sum.swap)
    also have "\<dots> = (\<Sum>l<ncols A. elem A i l * (\<Sum>k<ncols B. elem B l k * elem C k j))"
      by (simp add: sum_distrib_left mult.assoc)
    finally show ?thesis .
  qed
  have l: "matprod (matprod A B) C
      = mk (nrows A) (ncols C) (\<lambda>i j. \<Sum>k<ncols B. (\<Sum>l<ncols A. elem A i l * elem B l k) * elem C k j)"
    unfolding matprod_def[of "matprod A B"]
    by (simp add: sum_list_upt, intro mk_cong) (simp add: elem_matprod)
  have r: "matprod A (matprod B C)
      = mk (nrows A) (ncols C) (\<lambda>i j. \<Sum>l<ncols A. elem A i l * (\<Sum>k<ncols B. elem B l k * elem C k j))"
    unfolding matprod_def[of A]
    by (simp add: sum_list_upt, intro mk_cong) (simp add: elem_matprod assms(1))
  show ?thesis unfolding l r by (simp add: swap)
qed

lemma matprod_eye_right: "wf_nd A \<Longrightarrow> ncols A = n \<Longrightarrow> matprod A (eye n) = A"
proof -
  assume w: "wf_nd A" and n: "ncols A = n"
  have "matprod A (eye n) = mk (nrows A) (ncols A) (elem A)"
    unfolding matprod_def eye_def using n
    by (simp, intro mk_cong) (simp add: sum_list_upt if_distrib[of "\<lambda>x. _ * x"] sum.delta' cong: if_cong)
  then show ?thesis using mk_elem[OF w] by simp
qed

lemma matprod_eye_left: "wf_nd A \<Longrightarrow> nrows A = n \<Longrightarrow> matprod (eye n) A = A"
proof -
  assume w: "wf_nd A" and n: "nrows A = n"
  have "matprod (eye n) A = mk (nrows A) (ncols A) (elem A)"
    unfolding matprod_def eye_def using n
    by (simp, intro mk_cong) (simp add: sum_list_upt if_distrib[of "\<lambda>x. x * _"] sum.delta cong: if_cong)
  then show ?thesis using mk_elem[OF w] by simp
qed

lemma matprod_add_right:
  assumes "ncols X = nrows A" "nrows B = nrows A" "ncols B = ncols A"
  shows "matprod X (add_nd A B) = add_nd (matprod X A) (matprod X B)"
proof -
  have "matprod X (add_nd A B)
      = mk (nrows X) (ncols A) (\<lambda>i j. \<Sum>k<ncols X. elem X i k * (elem A k j + elem B k j))"
    unfolding matprod_def[of X]
    by (simp add: sum_list_upt, intro mk_cong) (simp add: elem_add assms)
  also have "\<dots> = add_nd (matprod X A) (matprod X B)"
    unfolding add_nd_def
    by (simp, intro mk_cong) (simp add: elem_matprod assms distrib_left sum.distrib)
  finally show ?thesis .
qed

lemma matprod_add_left:
  assumes "ncols A = nrows X" "nrows B = nrows A" "ncols B = ncols A"
  shows "matprod (add_nd A B) X = add_nd (matprod A X) (matprod B X)"
proof -
  have "matprod (add_nd A B) X
      = mk (nrows A) (ncols X) (\<lambda>i j. \<Sum>k<ncols A. (elem A i k + elem B i k) * elem X k j)"
    unfolding matprod_def[of "add_nd A B"]
    by (simp add: sum_list_upt, intro mk_cong) (simp add: elem_add assms)
  also have "\<dots> = add_nd (matprod A X) (matprod B X)"
    unfolding add_nd_def
    by (simp, intro mk_cong) (simp add: elem_matprod assms distrib_right sum.distrib)
  finally show ?thesis .
qed

lemma matprod_scalar_right:
  assumes "ncols X = nrows A"
  shows "matprod X (scalar_mul c A) = scalar_mul c (matprod X A)"
proof -
  have "matprod X (scalar_mul c A)
      = mk (nrows X) (ncols A) (\<lambda>i j. \<Sum>k<ncols X. elem X i k * (c * elem A k j))"
    unfolding matprod_def[of X]
    by (simp add: sum_list_upt, intro mk_cong) (simp add: elem_scalar assms)
  also have "\<dots> = scalar_mul c (matprod X A)"
    unfolding scalar_mul_def
    by (simp, intro mk_cong) (simp add: elem_matprod sum_distrib_left mult.left_commute)
  finally show ?thesis .
qed

lemma matprod_scalar_left:
  "matprod (scalar_mul c A) X = scalar_mul c (matprod A X)"
proof -
  have "matprod (scalar_mul c A) X
      = mk (nrows A) (ncols X) (\<lambda>i j. \<Sum>k<ncols A. (c * elem A i k) * elem X k j)"
    unfolding matprod_def[of "scalar_mul c A"]
    by (simp add: sum_list_upt, intro mk_cong) (simp add: elem_scalar)
  also have "\<dots> = scalar_mul c (matprod A X)"
    unfolding scalar_mul_def
    by (simp, intro mk_cong) (simp add: elem_matprod sum_distrib_left mult.assoc)
  finally show ?thesis .
qed

lemma subtract_square:
  assumes "nrows A = n" "ncols A = n"
  shows "subtract (scalar_mul s (eye n)) A = Inr (add_nd (scalar_mul s (eye n)) (scalar_mul (- 1) A))"
proof -
  have "mk n n (\<lambda>i j. elem (scalar_mul s (eye n)) (bidx n i) (bidx n j) - elem A (bidx n i) (bidx n j))
      = mk n n (\<lambda>i j. elem (scalar_mul s (eye n)) i j + elem (scalar_mul (- 1) A) i j)"
    by (intro mk_cong) (auto simp: bidx_def elem_scalar assms)
  then show ?thesis
    by (simp add: subtract_def broadcastable_def bdim_def assms eye_def add_nd_def)
qed

lemma galerkin_full_order:
  assumes V: "nrows V = n" "ncols V = n"
    and L: "nrows L = n" "ncols L = n"
    and LVt: "matprod L (transpose_nd V) = eye n"
    and G: "nrows G = n" "ncols G = n"
    and Gi: "wf_nd Gi" "nrows Gi = n" "ncols Gi = n"
    and GiG: "matprod Gi G = eye n"
    and B: "wf_nd B" "nrows B = n"
    and z: "nrows z = n"
    and eq: "matprod (matprod (transpose_nd V) (matprod G V)) z = matprod (transpose_nd V) B"
  shows "matprod V z = matprod Gi B"
proof -
  let ?Vt = "transpose_nd V"
  have "matprod G (matprod V z) = matprod (eye n) (matprod G (matprod V z))"
    by (simp add: matprod_eye_left G)
  also have "\<dots> = matprod (matprod L ?Vt) (matprod G (matprod V z))"
    by (simp add: LVt)
  also have "\<dots> = matprod L (matprod ?Vt (matprod G (matprod V z)))"
    by (rule matprod_assoc) (simp_all add: V G L)
  also have "matprod ?Vt (matprod G (matprod V z)) = matprod ?Vt (matprod (matprod G V) z)"
    by (simp add: matprod_assoc G V z)
  also have "\<dots> = matprod (matprod ?Vt (matprod G V)) z"
    by (rule matprod_assoc[symmetric]) (simp_all add: V G z)
  also have "\<dots> = matprod ?Vt B" by (rule eq)
  also have "matprod L (matprod ?Vt B) = matprod (matprod L ?Vt) B"
    by (rule matprod_assoc[symmetric]) (simp_all add: V B L)
  also have "\<dots> = B" by (simp add: LVt matprod_eye_left B)
  finally have GVz: "matprod G (matprod V z) = B" .
  have "matprod V z = matprod (eye n) (matprod V z)"
    by (simp add: matprod_eye_left V)
  also have "\<dots> = matprod (matprod Gi G) (matprod V z)" by (simp add: GiG)
  also have "\<dots> = matprod Gi (matprod G (matprod V z))"
    by (rule matprod_assoc) (simp_all add: Gi G V)
  also have "\<dots> = matprod Gi B" by (simp add: GVz)
  finally show ?thesis .
qed

lemmas nd_eval = mk_def elem_def matprod_def matmul_def transpose_nd_def eye_def scalar_mul_def
  add_nd_def subtract_def broadcastable_def bdim_def bidx_def conjugate_def adjoint_def diag_def
  wf_nd_def has_shape_def empty_va_def append_va_def take_cols_def slice_stop_def hstack_def
  small_inv_def small_solver_def det2_def unit_svd_def fixed_pod_def
  assemble_def solve_def model_output_def solution_dim_def reduce_def reconstruct_def
  MatrixModel_TF_def MatrixModel_def Let_def eval_nat_numeral

section \<open>Biorthogonal normalization\<close>

text \<open>
  C1. \<open>Gram\<close> with \<open>biort = True\<close> orthonormalizes \<open>V\<close> and \<open>W\<close> independently into
  \<open>V\<^sub>o\<close> and \<open>W\<^sub>o\<close> (the transposes of the arrays \<open>Q_V\<close> and \<open>Q_W\<close> that the
  orthonormalizer returns) and returns \<open>V' = V\<^sub>o (W\<^sub>o\<^sup>t V\<^sub>o)\<^sup>-\<^sup>1\<close> and \<open>W' = W\<^sub>o\<close>.
  When the orthonormalized arrays have the same shape, as they do for inputs of equal
  shape and full column rank, and \<open>np.linalg.inv\<close> returns the inverse \<open>M\<close> of
  \<open>W\<^sub>o\<^sup>t V\<^sub>o\<close>, the returned pair satisfies \<open>W'\<^sup>t V' = I\<^sub>r\<close> exactly.
\<close>

theorem Gram_biorthonormal:
  assumes gV: "gs V = Inr Q_V" and gW: "gs W = Inr Q_W"
    and shape: "nrows Q_V = nrows Q_W" "ncols Q_V = ncols Q_W"
    and inv: "linalg_inv (matprod (transpose_nd (transpose_nd Q_W)) (transpose_nd Q_V)) = Inr M"
    and M: "nrows M = nrows Q_V"
    and inverse: "matprod (matprod (transpose_nd (transpose_nd Q_W)) (transpose_nd Q_V)) M = eye (nrows Q_V)"
  shows "Gram gs linalg_inv V W True numpy =
           Inr (if numpy
                then (Numpy (matprod (transpose_nd Q_V) M), Numpy (transpose_nd Q_W))
                else (NumpyVectorArray (transpose_nd (matprod (transpose_nd Q_V) M)),
                      NumpyVectorArray (transpose_nd (transpose_nd Q_W))))
       \<and> matprod (transpose_nd (transpose_nd Q_W)) (matprod (transpose_nd Q_V) M) = eye (nrows Q_V)"
proof -
  have "matprod (transpose_nd (transpose_nd Q_W)) (matprod (transpose_nd Q_V) M)
      = matprod (matprod (transpose_nd (transpose_nd Q_W)) (transpose_nd Q_V)) M"
    by (rule matprod_assoc[symmetric]) (simp_all add: shape M)
  then have "matprod (transpose_nd (transpose_nd Q_W)) (matprod (transpose_nd Q_V) M) = eye (nrows Q_V)"
    using inverse by simp
  moreover have "Gram gs linalg_inv V W True numpy =
           Inr (if numpy
                then (Numpy (matprod (transpose_nd Q_V) M), Numpy (transpose_nd Q_W))
                else (NumpyVectorArray (transpose_nd (matprod (transpose_nd Q_V) M)),
                      NumpyVectorArray (transpose_nd (transpose_nd Q_W))))"
    using gV gW inv shape M by (simp add: Gram_def matmul_def Let_def)
  ultimately show ?thesis by simp
qed

text \<open>
  The theorem at two pairs of orthonormal vectors of dimension two, which the
  orthonormalizer leaves as they are: \<open>W\<^sub>o\<^sup>t V\<^sub>o = [[3/5, 4/5], [-4/5, 3/5]]\<close>, and the
  returned \<open>V'\<close> is its inverse.
\<close>

theorem Gram_biorthonormal_witness:
  "Gram Inr small_inv
      \<lparr>nrows = 2, ncols = 2, rows = [[3 / 5, - (4 / 5)], [4 / 5, 3 / 5]]\<rparr>
      \<lparr>nrows = 2, ncols = 2, rows = [[1, 0], [0, 1]]\<rparr> True True
     = Inr (Numpy \<lparr>nrows = 2, ncols = 2, rows = [[1, 0], [0, 1]]\<rparr>,
            Numpy \<lparr>nrows = 2, ncols = 2, rows = [[1, 0], [0, 1]]\<rparr>)
   \<and> matprod \<lparr>nrows = 2, ncols = 2, rows = [[1, 0], [0, 1]]\<rparr>
        (matprod \<lparr>nrows = 2, ncols = 2, rows = [[3 / 5, 4 / 5], [- (4 / 5), 3 / 5]]\<rparr>
                 \<lparr>nrows = 2, ncols = 2, rows = [[3 / 5, - (4 / 5)], [4 / 5, 3 / 5]]\<rparr>)
     = eye 2"
proof -
  let ?V = "\<lparr>nrows = 2, ncols = 2, rows = [[3 / 5, - (4 / 5)], [4 / 5, 3 / 5]]\<rparr> :: ndarray"
  let ?W = "\<lparr>nrows = 2, ncols = 2, rows = [[1, 0], [0, 1]]\<rparr> :: ndarray"
  let ?M = "\<lparr>nrows = 2, ncols = 2, rows = [[3 / 5, - (4 / 5)], [4 / 5, 3 / 5]]\<rparr> :: ndarray"
  have inv: "small_inv (matprod (transpose_nd (transpose_nd ?W)) (transpose_nd ?V)) = Inr ?M"
    by (simp add: nd_eval)
  have inverse: "matprod (matprod (transpose_nd (transpose_nd ?W)) (transpose_nd ?V)) ?M = eye (nrows ?V)"
    by (simp add: nd_eval)
  from Gram_biorthonormal[where gs = Inr and linalg_inv = small_inv and numpy = True,
      OF refl refl _ _ inv _ inverse]
  show ?thesis by (simp add: nd_eval)
qed

text \<open>
  C10. Whenever \<open>Gram\<close> with \<open>biort = True\<close> returns a pair \<open>(V\<^sub>1, W\<^sub>1)\<close>, \<open>Gram\<close> with
  \<open>biort = False\<close> on the same input returns a pair with the same second component
  \<open>W\<^sub>1\<close>: the biorthogonal step changes only the first component, from \<open>V\<^sub>o\<close> to
  \<open>V\<^sub>o M\<close> with \<open>M\<close> the array that \<open>np.linalg.inv\<close> returns for \<open>W\<^sub>o\<^sup>t V\<^sub>o\<close>. The
  orthonormalizer is assumed to return well-formed arrays.
\<close>

theorem Gram_biort_frame:
  assumes gV: "gs V = Inr Q_V" and wV: "wf_nd Q_V"
    and gW: "gs W = Inr Q_W" and wW: "wf_nd Q_W"
    and run: "Gram gs linalg_inv V W True numpy = Inr (V1, W1)"
  shows "\<exists>V0 M. Gram gs linalg_inv V W False numpy = Inr (V0, W1)
           \<and> linalg_inv (matprod (transpose_nd (transpose_nd Q_W)) (transpose_nd Q_V)) = Inr M
           \<and> V0 = wrap numpy (transpose_nd Q_V)
           \<and> V1 = wrap numpy (matprod (transpose_nd Q_V) M)"
  using run gV gW transpose_transpose[OF wV] transpose_transpose[OF wW]
  by (auto simp: Gram_def Let_def wrap_def matmul_def split: sum.splits if_splits)

text \<open>
  The theorem at two arrays of orthonormal vectors, which the orthonormalizer leaves as
  they are, and which are not biorthogonal to each other: the first component changes,
  the second is the same with and without the biorthogonal step.
\<close>

theorem Gram_biort_frame_witness:
  "Gram Inr small_inv
      \<lparr>nrows = 2, ncols = 2, rows = [[1, 0], [0, 1]]\<rparr>
      \<lparr>nrows = 2, ncols = 2, rows = [[3 / 5, 4 / 5], [- (4 / 5), 3 / 5]]\<rparr> True False
     = Inr (NumpyVectorArray \<lparr>nrows = 2, ncols = 2, rows = [[3 / 5, 4 / 5], [- (4 / 5), 3 / 5]]\<rparr>,
            NumpyVectorArray \<lparr>nrows = 2, ncols = 2, rows = [[3 / 5, 4 / 5], [- (4 / 5), 3 / 5]]\<rparr>)
   \<and> Gram Inr small_inv
      \<lparr>nrows = 2, ncols = 2, rows = [[1, 0], [0, 1]]\<rparr>
      \<lparr>nrows = 2, ncols = 2, rows = [[3 / 5, 4 / 5], [- (4 / 5), 3 / 5]]\<rparr> False False
     = Inr (NumpyVectorArray \<lparr>nrows = 2, ncols = 2, rows = [[1, 0], [0, 1]]\<rparr>,
            NumpyVectorArray \<lparr>nrows = 2, ncols = 2, rows = [[3 / 5, 4 / 5], [- (4 / 5), 3 / 5]]\<rparr>)"
proof -
  let ?V = "\<lparr>nrows = 2, ncols = 2, rows = [[1, 0], [0, 1]]\<rparr> :: ndarray"
  let ?W = "\<lparr>nrows = 2, ncols = 2, rows = [[3 / 5, 4 / 5], [- (4 / 5), 3 / 5]]\<rparr> :: ndarray"
  let ?V1 = "NumpyVectorArray \<lparr>nrows = 2, ncols = 2, rows = [[3 / 5, 4 / 5], [- (4 / 5), 3 / 5]]\<rparr>"
  let ?W1 = "NumpyVectorArray \<lparr>nrows = 2, ncols = 2, rows = [[3 / 5, 4 / 5], [- (4 / 5), 3 / 5]]\<rparr>"
  have wV: "wf_nd ?V" and wW: "wf_nd ?W" by (simp_all add: wf_nd_def)
  have run: "Gram Inr small_inv ?V ?W True False = Inr (?V1, ?W1)"
    by (simp add: Gram_def nd_eval)
  from Gram_biort_frame[where gs = Inr and linalg_inv = small_inv, OF refl wV refl wW run]
  show ?thesis using run by (auto simp: wrap_def nd_eval)
qed

section \<open>Rank and shape errors\<close>

lemma solve_shape: "solve slv m s = Inr u \<Longrightarrow> nrows u = 1 \<and> ncols u = solution_dim m"
  by (auto simp: solve_def split: sum.splits)

lemma solve_all2_shape:
  "solve_all2 slv mV mW ss aV aW = Inr (SV, SW) \<Longrightarrow>
     nrows SV = nrows aV + length ss \<and> ncols SV = ncols aV \<and>
     nrows SW = nrows aW + length ss \<and> ncols SW = ncols aW"
proof (induction ss arbitrary: aV aW)
  case Nil
  then show ?case by simp
next
  case (Cons s ss)
  from Cons.prems obtain u w where u: "solve slv mV s = Inr u" and w: "solve slv mW s = Inr w"
    and rest: "solve_all2 slv mV mW ss (append_va aV u) (append_va aW w) = Inr (SV, SW)"
    by (auto split: sum.splits)
  from Cons.IH[OF rest] solve_shape[OF u] solve_shape[OF w] show ?case
    by (simp add: append_va_def)
qed

text \<open>
  C4. Let the snapshots of both models be computed and their singular value
  decompositions returned, so that there is an \<open>n \<times> count\<close> snapshot matrix, \<open>n\<close> the
  dimension of the model and \<open>count\<close> the number of training parameters. If a requested
  order exceeds \<open>min(n, count)\<close>, \<open>MatrixReductor\<close> raises the \<open>ValueError\<close> that names
  the order (the code's rank error) and returns no reduced basis. The cell that extracts
  the basis with NumPy raises its \<open>ValueError\<close> in the same way.
\<close>

theorem MatrixReductor_rank_exceeded:
  assumes snaps: "solve_all2 slv model_V model_W training_set
                    (empty_va (solution_dim model_V)) (empty_va (solution_dim model_W)) = Inr (SV, SW)"
    and svdV: "linalg_svd (transpose_nd SV) = Inr sV"
    and svdW: "linalg_svd (transpose_nd SW) = Inr sW"
    and k: "int (min (solution_dim model_V) (length training_set)) < reduced_order_V
          \<or> int (min (solution_dim model_W) (length training_set)) < reduced_order_W"
  shows "MatrixReductor slv linalg_svd model_V model_W training_set reduced_order_V reduced_order_W =
           Inl (ValueError
             (if int (min (solution_dim model_V) (length training_set)) < reduced_order_V
              then '''reduced_order_V' cannot exceed the rank of the snapshot matrix.''
              else '''reduced_order_W' cannot exceed the rank of the snapshot matrix.''))
       \<and> (\<forall>S sv modes. linalg_svd S = Inr sv \<and> int (min (nrows S) (ncols S)) < modes
            \<longrightarrow> pod_basis_numpy linalg_svd S modes
                  = Inl (ValueError ''modes cannot exceed the rank of the snapshot matrix.''))"
proof -
  from solve_all2_shape[OF snaps]
  have sh: "nrows SV = length training_set" "ncols SV = solution_dim model_V"
           "nrows SW = length training_set" "ncols SW = solution_dim model_W"
    by (simp_all add: empty_va_def)
  obtain UV DV VtV where sV: "sV = (UV, DV, VtV)" by (cases sV) auto
  obtain UW DW VtW where sW: "sW = (UW, DW, VtW)" by (cases sW) auto
  have reductor: "MatrixReductor slv linalg_svd model_V model_W training_set reduced_order_V reduced_order_W =
           Inl (ValueError
             (if int (min (solution_dim model_V) (length training_set)) < reduced_order_V
              then '''reduced_order_V' cannot exceed the rank of the snapshot matrix.''
              else '''reduced_order_W' cannot exceed the rank of the snapshot matrix.''))"
    using k snaps svdV svdW sh
    by (auto simp: MatrixReductor_def Let_def sV sW)
  have cell: "pod_basis_numpy linalg_svd S modes
                = Inl (ValueError ''modes cannot exceed the rank of the snapshot matrix.'')"
    if "linalg_svd S = Inr sv" and "int (min (nrows S) (ncols S)) < modes" for S sv modes
    using that by (cases sv) (auto simp: pod_basis_numpy_def)
  from reductor cell show ?thesis by blast
qed

text \<open>
  The theorem at the model of order one with \<open>A = [[2]]\<close>, \<open>B = C = [[1]]\<close> and one
  training parameter: \<open>min(n, count) = 1\<close>, and the order 2 is refused.
\<close>

theorem MatrixReductor_rank_exceeded_witness:
  "MatrixReductor small_solver unit_svd
      (fst (MatrixModel (NdArray \<lparr>nrows = 1, ncols = 1, rows = [[2]]\<rparr>)
                        (NdArray \<lparr>nrows = 1, ncols = 1, rows = [[1]]\<rparr>)
                        (NdArray \<lparr>nrows = 1, ncols = 1, rows = [[1]]\<rparr>)))
      (snd (MatrixModel (NdArray \<lparr>nrows = 1, ncols = 1, rows = [[2]]\<rparr>)
                        (NdArray \<lparr>nrows = 1, ncols = 1, rows = [[1]]\<rparr>)
                        (NdArray \<lparr>nrows = 1, ncols = 1, rows = [[1]]\<rparr>)))
      [1] 2 1
     = Inl (ValueError '''reduced_order_V' cannot exceed the rank of the snapshot matrix.'')
   \<and> pod_basis_numpy unit_svd \<lparr>nrows = 1, ncols = 1, rows = [[1]]\<rparr> 20
     = Inl (ValueError ''modes cannot exceed the rank of the snapshot matrix.'')"
proof -
  let ?mV = "fst (MatrixModel (NdArray \<lparr>nrows = 1, ncols = 1, rows = [[2]]\<rparr>)
                        (NdArray \<lparr>nrows = 1, ncols = 1, rows = [[1]]\<rparr>)
                        (NdArray \<lparr>nrows = 1, ncols = 1, rows = [[1]]\<rparr>))"
  let ?mW = "snd (MatrixModel (NdArray \<lparr>nrows = 1, ncols = 1, rows = [[2]]\<rparr>)
                        (NdArray \<lparr>nrows = 1, ncols = 1, rows = [[1]]\<rparr>)
                        (NdArray \<lparr>nrows = 1, ncols = 1, rows = [[1]]\<rparr>))"
  let ?S = "\<lparr>nrows = 1, ncols = 1, rows = [[- 1]]\<rparr> :: ndarray"
  let ?I = "\<lparr>nrows = 1, ncols = 1, rows = [[1]]\<rparr> :: ndarray"
  have snaps: "solve_all2 small_solver ?mV ?mW [1]
                 (empty_va (solution_dim ?mV)) (empty_va (solution_dim ?mW)) = Inr (?S, ?S)"
    by (simp add: nd_eval)
  have svd: "unit_svd (transpose_nd ?S) = Inr (eye 1, [1], transpose_nd ?S)"
    by (simp add: nd_eval)
  have k: "int (min (solution_dim ?mV) (length [1 :: complex])) < 2
         \<or> int (min (solution_dim ?mW) (length [1 :: complex])) < 1"
    by (simp add: nd_eval)
  have cell: "unit_svd ?I = Inr (eye 1, [1], ?I) \<and> int (min (nrows ?I) (ncols ?I)) < 20"
    by (simp add: nd_eval)
  from MatrixReductor_rank_exceeded[where slv = small_solver and linalg_svd = unit_svd,
      OF snaps svd svd k] cell
  show ?thesis by (simp add: nd_eval)
qed

text \<open>
  C5, as stated, fails. \<open>ProjectionMatrices\<close> has no check of the lengths of its own:
  the reduced models are solved at every interpolation point first, and a length that
  does not fit is only met in the product with \<open>diag(b)\<close> or \<open>diag(c)\<close>. At the reduced
  models of the system of order one with \<open>A = [[2]]\<close> and \<open>B = C = [[1]]\<close>, the
  interpolation point \<open>2\<close>, where the reduced operator is singular, and two weights in
  \<open>b\<close>, the call ends in the solver's error, not in a shape error.
\<close>

theorem ProjectionMatrices_solver_error_first_counterexample:
  "length [1, 2 :: complex] \<noteq> length [2 :: complex]
   \<and> ProjectionMatrices small_solver
      (reduce \<lparr>fom = fst (MatrixModel (NdArray \<lparr>nrows = 1, ncols = 1, rows = [[2]]\<rparr>)
                                      (NdArray \<lparr>nrows = 1, ncols = 1, rows = [[1]]\<rparr>)
                                      (NdArray \<lparr>nrows = 1, ncols = 1, rows = [[1]]\<rparr>)),
               RB = \<lparr>nrows = 1, ncols = 1, rows = [[1]]\<rparr>\<rparr>)
      \<lparr>fom = fst (MatrixModel (NdArray \<lparr>nrows = 1, ncols = 1, rows = [[2]]\<rparr>)
                              (NdArray \<lparr>nrows = 1, ncols = 1, rows = [[1]]\<rparr>)
                              (NdArray \<lparr>nrows = 1, ncols = 1, rows = [[1]]\<rparr>)),
       RB = \<lparr>nrows = 1, ncols = 1, rows = [[1]]\<rparr>\<rparr>
      (reduce \<lparr>fom = snd (MatrixModel (NdArray \<lparr>nrows = 1, ncols = 1, rows = [[2]]\<rparr>)
                                      (NdArray \<lparr>nrows = 1, ncols = 1, rows = [[1]]\<rparr>)
                                      (NdArray \<lparr>nrows = 1, ncols = 1, rows = [[1]]\<rparr>)),
               RB = \<lparr>nrows = 1, ncols = 1, rows = [[1]]\<rparr>\<rparr>)
      \<lparr>fom = snd (MatrixModel (NdArray \<lparr>nrows = 1, ncols = 1, rows = [[2]]\<rparr>)
                              (NdArray \<lparr>nrows = 1, ncols = 1, rows = [[1]]\<rparr>)
                              (NdArray \<lparr>nrows = 1, ncols = 1, rows = [[1]]\<rparr>)),
       RB = \<lparr>nrows = 1, ncols = 1, rows = [[1]]\<rparr>\<rparr>
      [2] [1, 2] [1] False
     = Inl InversionError"
  by (simp add: ProjectionMatrices_def nd_eval)

text \<open>
  C5, amended. If the lengths of the interpolation-point list \<open>mu\<close> and of the weight
  vectors \<open>b\<close> and \<open>c\<close> are not all equal, \<open>ProjectionMatrices\<close> fails and returns no
  matrices: with the error of the first reduced solve that fails, and, when the reduced
  solves at all the points return, with the \<open>ValueError\<close> of the product with
  \<open>diag(b)\<close> or \<open>diag(c)\<close>, which is the code's shape error.
\<close>

theorem ProjectionMatrices_length_mismatch:
  assumes len: "length b \<noteq> length mu \<or> length c \<noteq> length mu"
  shows "ProjectionMatrices slv pod_rom_V pod_reductor_V pod_rom_W pod_reductor_W mu b c numpy
       = (case solve_all2 slv pod_rom_V pod_rom_W mu (empty_va (solution_dim pod_rom_V))
                  (empty_va (solution_dim pod_rom_W)) of
            Inl e \<Rightarrow> Inl e
          | Inr S \<Rightarrow> Inl (ValueError ''matmul: mismatch in core dimension''))"
proof (cases "solve_all2 slv pod_rom_V pod_rom_W mu (empty_va (solution_dim pod_rom_V))
                  (empty_va (solution_dim pod_rom_W))")
  case (Inl e)
  then show ?thesis by (simp add: ProjectionMatrices_def)
next
  case (Inr S)
  obtain SV SW where S: "S = (SV, SW)" by (cases S) auto
  from solve_all2_shape[OF Inr[unfolded S]]
  have sh: "nrows SV = length mu" "nrows SW = length mu" by (simp_all add: empty_va_def)
  show ?thesis
    using len sh Inr S
    by (auto simp: ProjectionMatrices_def Let_def matmul_def reconstruct_def diag_def)
qed

text \<open>
  The theorem at the same reduced models, the interpolation point \<open>3\<close>, where the reduced
  solves return, and two weights in \<open>b\<close>: the call ends in the \<open>ValueError\<close>.
\<close>

theorem ProjectionMatrices_length_mismatch_witness:
  "ProjectionMatrices small_solver
      (reduce \<lparr>fom = fst (MatrixModel (NdArray \<lparr>nrows = 1, ncols = 1, rows = [[2]]\<rparr>)
                                      (NdArray \<lparr>nrows = 1, ncols = 1, rows = [[1]]\<rparr>)
                                      (NdArray \<lparr>nrows = 1, ncols = 1, rows = [[1]]\<rparr>)),
               RB = \<lparr>nrows = 1, ncols = 1, rows = [[1]]\<rparr>\<rparr>)
      \<lparr>fom = fst (MatrixModel (NdArray \<lparr>nrows = 1, ncols = 1, rows = [[2]]\<rparr>)
                              (NdArray \<lparr>nrows = 1, ncols = 1, rows = [[1]]\<rparr>)
                              (NdArray \<lparr>nrows = 1, ncols = 1, rows = [[1]]\<rparr>)),
       RB = \<lparr>nrows = 1, ncols = 1, rows = [[1]]\<rparr>\<rparr>
      (reduce \<lparr>fom = snd (MatrixModel (NdArray \<lparr>nrows = 1, ncols = 1, rows = [[2]]\<rparr>)
                                      (NdArray \<lparr>nrows = 1, ncols = 1, rows = [[1]]\<rparr>)
                                      (NdArray \<lparr>nrows = 1, ncols = 1, rows = [[1]]\<rparr>)),
               RB = \<lparr>nrows = 1, ncols = 1, rows = [[1]]\<rparr>\<rparr>)
      \<lparr>fom = snd (MatrixModel (NdArray \<lparr>nrows = 1, ncols = 1, rows = [[2]]\<rparr>)
                              (NdArray \<lparr>nrows = 1, ncols = 1, rows = [[1]]\<rparr>)
                              (NdArray \<lparr>nrows = 1, ncols = 1, rows = [[1]]\<rparr>)),
       RB = \<lparr>nrows = 1, ncols = 1, rows = [[1]]\<rparr>\<rparr>
      [3] [1, 2] [1] False
     = Inl (ValueError ''matmul: mismatch in core dimension'')"
proof -
  let ?mV = "fst (MatrixModel (NdArray \<lparr>nrows = 1, ncols = 1, rows = [[2]]\<rparr>)
                        (NdArray \<lparr>nrows = 1, ncols = 1, rows = [[1]]\<rparr>)
                        (NdArray \<lparr>nrows = 1, ncols = 1, rows = [[1]]\<rparr>))"
  let ?mW = "snd (MatrixModel (NdArray \<lparr>nrows = 1, ncols = 1, rows = [[2]]\<rparr>)
                        (NdArray \<lparr>nrows = 1, ncols = 1, rows = [[1]]\<rparr>)
                        (NdArray \<lparr>nrows = 1, ncols = 1, rows = [[1]]\<rparr>))"
  let ?I = "\<lparr>nrows = 1, ncols = 1, rows = [[1]]\<rparr> :: ndarray"
  let ?rV = "reduce \<lparr>fom = ?mV, RB = ?I\<rparr>"
  let ?rW = "reduce \<lparr>fom = ?mW, RB = ?I\<rparr>"
  have len: "length [1, 2 :: complex] \<noteq> length [3 :: complex] \<or> length [1 :: complex] \<noteq> length [3 :: complex]"
    by simp
  have solves: "\<exists>S. solve_all2 small_solver ?rV ?rW [3] (empty_va (solution_dim ?rV))
                  (empty_va (solution_dim ?rW)) = Inr S"
    by (simp add: nd_eval)
  from ProjectionMatrices_length_mismatch[where slv = small_solver and pod_rom_V = ?rV
      and pod_rom_W = ?rW and pod_reductor_V = "\<lparr>fom = ?mV, RB = ?I\<rparr>"
      and pod_reductor_W = "\<lparr>fom = ?mW, RB = ?I\<rparr>" and numpy = False, OF len] solves
  show ?thesis by auto
qed

section \<open>The energy criterion\<close>

lemma length_cumsum_from: "length (cumsum_from a xs) = length xs"
  by (induction xs arbitrary: a) auto

lemma length_cumsum: "length (cumsum xs) = length xs"
  by (cases xs) (auto simp: length_cumsum_from)

lemma nth_cumsum_from: "k < length xs \<Longrightarrow> cumsum_from a xs ! k = foldl fadd a (take (Suc k) xs)"
proof (induction xs arbitrary: a k)
  case Nil
  then show ?case by simp
next
  case (Cons x xs)
  then show ?case by (cases k) auto
qed

lemma nth_cumsum:
  "k < length xs \<Longrightarrow>
     cumsum xs ! k = (case take (Suc k) xs of [] \<Rightarrow> Finite 0 | x # ys \<Rightarrow> foldl fadd x ys)"
proof (cases xs)
  case Nil
  then show "k < length xs \<Longrightarrow> ?thesis" by simp
next
  case (Cons x ys)
  then show "k < length xs \<Longrightarrow> ?thesis" by (cases k) (auto simp: nth_cumsum_from)
qed

lemma first_true_le: "first_true bs \<le> length bs"
  by (induction bs) auto

lemma first_true_hit: "first_true bs < length bs \<Longrightarrow> bs ! first_true bs"
  by (induction bs) (auto split: if_splits)

lemma first_true_least: "k < first_true bs \<Longrightarrow> \<not> bs ! k"
proof (induction bs arbitrary: k)
  case Nil
  then show ?case by simp
next
  case (Cons b bs)
  then show ?case by (cases k) (auto split: if_splits)
qed

lemma first_true_none: "\<not> first_true bs < length bs \<Longrightarrow> k < length bs \<Longrightarrow> \<not> bs ! k"
proof (induction bs arbitrary: k)
  case Nil
  then show ?case by simp
next
  case (Cons b bs)
  then show ?case by (cases k) (auto split: if_splits)
qed

text \<open>The roundings that occur at the singular values \<open>3, 1, 1\<close>.\<close>

lemma exponent_values:
  "exponent 1 = 0" "exponent 9 = 3" "exponent 10 = 3" "exponent 11 = 3"
  "exponent (9 / 11) = - 1" "exponent (10 / 11) = - 1"
  by (simp_all add: exponent_def)

lemma round_double_values:
  "round_double 1 = Finite 1" "round_double 9 = Finite 9"
  "round_double 10 = Finite 10" "round_double 11 = Finite 11"
  "round_double (9 / 11) = Finite (7369526662969903 / 9007199254740992)"
  "round_double (10 / 11) = Finite (8188362958855447 / 9007199254740992)"
  by (simp_all add: round_double_def exponent_values pow2_def round_half_even_def Let_def)

lemma energy_quotient_values:
  "energy_quotient sequential_sum [3, 1, 1] 1 = Finite (7369526662969903 / 9007199254740992)"
  "energy_quotient sequential_sum [3, 1, 1] 2 = Finite (8188362958855447 / 9007199254740992)"
  by (simp_all add: energy_quotient_def float_energy_def sequential_sum_def np_square_def
      round_double_values eval_nat_numeral)

lemma energy_values: "energy [3, 1, 1] 1 = 9" "energy [3, 1, 1] 2 = 10" "energy [3, 1, 1] 3 = 11"
  by (simp_all add: energy_def eval_nat_numeral)

text \<open>
  C8, as stated, fails: the cell compares quotients that are computed in double
  precision. At the singular values \<open>3, 1, 1\<close> the energies are \<open>9, 10, 11\<close>, and
  they are computed exactly, in whatever order \<open>np.sum\<close> adds the squares. Let the
  fraction be the double \<open>0.8181818181818182\<close>, which is \<open>7369526662969903 / 2\<^sup>5\<^sup>3\<close> and
  lies above \<open>9/11\<close>. The first quotient \<open>9/11\<close> is rounded to that very double, so the
  cell selects one mode; but \<open>9\<close> is less than the fraction times \<open>11\<close>, and the smallest
  \<open>k\<close> of the claim is \<open>2\<close>.
\<close>

theorem energy_modes_rounding_counterexample:
  "energy_modes sequential_sum [3, 1, 1] (7369526662969903 / 9007199254740992) = Inr 1
   \<and> energy [3, 1, 1] 1 < (7369526662969903 / 9007199254740992) * energy [3, 1, 1] 3
   \<and> (7369526662969903 / 9007199254740992) * energy [3, 1, 1] 3 \<le> energy [3, 1, 1] 2
   \<and> 0 < (7369526662969903 / 9007199254740992 :: real)
   \<and> (7369526662969903 / 9007199254740992 :: real) \<le> 1"
proof -
  have "energy_modes sequential_sum [3, 1, 1] (7369526662969903 / 9007199254740992) = Inr 1"
    by (simp add: energy_modes_def sequential_sum_def np_square_def round_double_values
        np_ge_def argmax_bool_def Let_def)
  then show ?thesis using energy_values by simp
qed

text \<open>
  C8, amended. For singular values \<open>D\<close> (at least one) and every threshold \<open>t\<close>, the
  energy criterion selects exactly the smallest \<open>m \<ge> 1\<close> whose computed energy quotient
  is at least \<open>t\<close>: the sum of the first \<open>m\<close> squares, accumulated in doubles from left
  to right, divided in doubles by the sum of all the squares that \<open>np.sum\<close> returns.
  No smaller number of modes has such a quotient. When no number of modes has one
  (a threshold above every quotient, or quotients that are \<open>nan\<close>), the cell selects
  one mode.
\<close>

theorem energy_modes_first_quotient:
  assumes "D \<noteq> []"
  shows "\<exists>m. energy_modes np_sum D t = Inr m \<and> 1 \<le> m \<and> m \<le> length D
             \<and> (\<forall>k. 1 \<le> k \<and> k < m \<longrightarrow> \<not> np_ge (energy_quotient np_sum D k) t)
             \<and> (np_ge (energy_quotient np_sum D m) t
                 \<or> m = 1 \<and> (\<forall>k. 1 \<le> k \<and> k \<le> length D \<longrightarrow> \<not> np_ge (energy_quotient np_sum D k) t))"
proof -
  define sq where "sq = map np_square D"
  define bs where "bs = map (\<lambda>e. np_ge e t) (map (\<lambda>c. fdiv c (np_sum sq)) (cumsum sq))"
  have len: "length bs = length D" by (simp add: bs_def length_cumsum sq_def)
  have ne: "bs \<noteq> []" using len assms by auto
  have nth_bs: "bs ! k = np_ge (energy_quotient np_sum D (Suc k)) t" if "k < length D" for k
    using that
    by (simp add: bs_def length_cumsum nth_cumsum sq_def energy_quotient_def float_energy_def take_map)
  have em: "energy_modes np_sum D t = (case argmax_bool bs of Inl e \<Rightarrow> Inl e | Inr i \<Rightarrow> Inr (i + 1))"
    by (simp add: energy_modes_def bs_def sq_def Let_def)
  show ?thesis
  proof (cases "first_true bs < length bs")
    case True
    let ?i = "first_true bs"
    have r: "energy_modes np_sum D t = Inr (?i + 1)" using em ne True by (simp add: argmax_bool_def)
    have hit: "np_ge (energy_quotient np_sum D (?i + 1)) t"
      using first_true_hit[OF True] nth_bs[of ?i] True len by simp
    have least: "\<not> np_ge (energy_quotient np_sum D k) t" if k1: "1 \<le> k" and k2: "k < ?i + 1" for k
    proof -
      obtain j where j: "k = Suc j" using k1 by (cases k) auto
      then have "j < ?i" using k2 by simp
      then have "\<not> bs ! j" by (rule first_true_least)
      moreover have "j < length D" using \<open>j < ?i\<close> True len by simp
      ultimately show ?thesis using nth_bs[of j] j by simp
    qed
    show ?thesis using r hit least True len by auto
  next
    case False
    have r: "energy_modes np_sum D t = Inr 1" using em ne False by (simp add: argmax_bool_def)
    have none: "\<not> np_ge (energy_quotient np_sum D k) t" if k1: "1 \<le> k" and k2: "k \<le> length D" for k
    proof -
      obtain j where j: "k = Suc j" using k1 by (cases k) auto
      then have jl: "j < length bs" using k2 len by simp
      from first_true_none[OF False jl] nth_bs[of j] jl len j show ?thesis by simp
    qed
    have "1 \<le> length D" using assms by (cases D) auto
    then show ?thesis using r none by auto
  qed
qed

text \<open>
  The theorem at the singular values \<open>3, 1, 1\<close> and the threshold \<open>7/8\<close>: the computed
  quotients are the doubles nearest to \<open>9/11\<close> and \<open>10/11\<close>, and two modes are the first
  to reach \<open>0.875\<close>.
\<close>

theorem energy_modes_first_quotient_witness:
  "energy_modes sequential_sum [3, 1, 1] (7 / 8) = Inr 2
   \<and> np_ge (energy_quotient sequential_sum [3, 1, 1] 2) (7 / 8)
   \<and> \<not> np_ge (energy_quotient sequential_sum [3, 1, 1] 1) (7 / 8)"
proof -
  have run: "energy_modes sequential_sum [3, 1, 1] (7 / 8) = Inr 2"
    by (simp add: energy_modes_def sequential_sum_def np_square_def round_double_values
        np_ge_def argmax_bool_def Let_def)
  from energy_modes_first_quotient[of "[3, 1, 1]" sequential_sum "7 / 8"]
  obtain m where m: "energy_modes sequential_sum [3, 1, 1] (7 / 8) = Inr m"
      "\<forall>k. 1 \<le> k \<and> k < m \<longrightarrow> \<not> np_ge (energy_quotient sequential_sum [3, 1, 1] k) (7 / 8)"
      "np_ge (energy_quotient sequential_sum [3, 1, 1] m) (7 / 8)
        \<or> m = 1 \<and> (\<forall>k. 1 \<le> k \<and> k \<le> length [3, 1, 1 :: real]
                       \<longrightarrow> \<not> np_ge (energy_quotient sequential_sum [3, 1, 1] k) (7 / 8))"
    by auto
  from m(1) run have m2: "m = 2" by simp
  with m(2) m(3) run show ?thesis by auto
qed

section \<open>The source of randomness of the offline phase\<close>

text \<open>
  C7, as stated, fails. \<open>TFROM\<close> takes no seed and no random source: it draws the
  training set from the generator of the process. Two calls with the same arguments,
  one after the other, on the domain \<open>(0, 1)\<close> with one snapshot and the generator about
  to deliver \<open>1/2, 1/3, \<dots>\<close> get the training sets \<open>[1/2]\<close> and \<open>[1/3]\<close>.
\<close>

theorem TFROM_twice_counterexample:
  "TFROM_twice [0, 1] 1 harmonic_draws = Inr ([1 / 2], [1 / 3])
   \<and> [1 / 2 :: complex] \<noteq> [1 / 3]"
  by (simp add: TFROM_twice_def TFROM_training_set_def random_uniform_def harmonic_draws_def)

lemma TFROM_training_set_agree:
  assumes "\<forall>i<2 * nat snap. ga i = gb i"
  shows "map_sum id fst (TFROM_training_set rng snap ga) = map_sum id fst (TFROM_training_set rng snap gb)"
proof -
  have a: "map (\<lambda>i. lo + (hi - lo) * ga i) [0..<nat snap]
         = map (\<lambda>i. lo + (hi - lo) * gb i) [0..<nat snap]" for lo hi
    using assms by (intro map_cong) auto
  have b: "map (\<lambda>i. lo + (hi - lo) * ga (i + nat snap)) [0..<nat snap]
         = map (\<lambda>i. lo + (hi - lo) * gb (i + nat snap)) [0..<nat snap]" for lo hi
    using assms by (intro map_cong) auto
  show ?thesis
    by (simp add: TFROM_training_set_def random_uniform_def a b)
qed

text \<open>
  C7, amended. Snapshot sampling draws its parameters from the generator of the process.
  The training set and the reduced model of \<open>TFROM\<close> are determined by the arguments
  and by the draws the generator delivers during the call, at most twice the number of
  snapshots: two runs with the same arguments, started in generator states that deliver
  the same draws, produce identical training sets and identical reduced models.
\<close>

theorem TFROM_same_draws:
  assumes "\<forall>i<2 * nat snap. ga i = gb i"
  shows "map_sum id fst (TFROM_training_set rng snap ga) = map_sum id fst (TFROM_training_set rng snap gb)
       \<and> map_sum id fst (TFROM slv pod model rng snap rorder atol rtol ga)
         = map_sum id fst (TFROM slv pod model rng snap rorder atol rtol gb)"
proof -
  have ts: "map_sum id fst (TFROM_training_set rng snap ga) = map_sum id fst (TFROM_training_set rng snap gb)"
    by (rule TFROM_training_set_agree[OF assms])
  have "map_sum id fst (TFROM slv pod model rng snap rorder atol rtol ga)
         = map_sum id fst (TFROM slv pod model rng snap rorder atol rtol gb)"
    using ts
    by (cases "TFROM_training_set rng snap ga"; cases "TFROM_training_set rng snap gb")
       (auto simp: TFROM_def Let_def split: sum.splits prod.splits)
  with ts show ?thesis by simp
qed

text \<open>
  The theorem at the system of order one with \<open>A = [[2]]\<close>, \<open>B = C = [[1]]\<close>, one
  snapshot on the domain \<open>(0, 1)\<close>, and two generator states that agree on their first
  two draws and differ afterwards.
\<close>

theorem TFROM_same_draws_witness:
  "map_sum id fst (TFROM_training_set [0, 1] 1 harmonic_draws)
     = map_sum id fst (TFROM_training_set [0, 1] 1 (\<lambda>i. if i < 2 then harmonic_draws i else 0))
   \<and> map_sum id fst (TFROM small_solver (fixed_pod \<lparr>nrows = 1, ncols = 1, rows = [[1]]\<rparr>)
        \<lparr>lti_A = \<lparr>nrows = 1, ncols = 1, rows = [[2]]\<rparr>,
         lti_B = \<lparr>nrows = 1, ncols = 1, rows = [[1]]\<rparr>,
         lti_C = \<lparr>nrows = 1, ncols = 1, rows = [[1]]\<rparr>\<rparr> [0, 1] 1 None 0 0 harmonic_draws)
     = map_sum id fst (TFROM small_solver (fixed_pod \<lparr>nrows = 1, ncols = 1, rows = [[1]]\<rparr>)
        \<lparr>lti_A = \<lparr>nrows = 1, ncols = 1, rows = [[2]]\<rparr>,
         lti_B = \<lparr>nrows = 1, ncols = 1, rows = [[1]]\<rparr>,
         lti_C = \<lparr>nrows = 1, ncols = 1, rows = [[1]]\<rparr>\<rparr> [0, 1] 1 None 0 0
        (\<lambda>i. if i < 2 then harmonic_draws i else 0))"
proof -
  have agree: "\<forall>i<2 * nat 1. harmonic_draws i = (if i < 2 then harmonic_draws i else 0)"
    by simp
  from TFROM_same_draws[where ga = harmonic_draws
      and gb = "\<lambda>i. if i < 2 then harmonic_draws i else 0" and snap = 1, OF agree]
  show ?thesis by blast
qed

section \<open>The offline/online pipeline at full order\<close>

lemma assemble_MatrixModel_TF:
  "assemble (MatrixModel_TF (NumpyMatrixOperator A) (NumpyMatrixOperator B) (NumpyMatrixOperator C)) s
     = add_nd (scalar_mul s (eye (nrows A))) (scalar_mul (- 1) A)"
  by (simp add: assemble_def MatrixModel_TF_def Let_def)

lemma assemble_reduce_MatrixModel_TF:
  assumes A: "nrows A = n" "ncols A = n" and pod_basis: "ncols pod_basis = n"
  shows "assemble (reduce \<lparr>fom = MatrixModel_TF (NumpyMatrixOperator A) (NumpyMatrixOperator B)
                               (NumpyMatrixOperator C), RB = pod_basis\<rparr>) s
     = matprod (transpose_nd (transpose_nd pod_basis))
         (matprod (add_nd (scalar_mul s (eye n)) (scalar_mul (- 1) A)) (transpose_nd pod_basis))"
proof -
  let ?V = "transpose_nd pod_basis"
  let ?Vt = "transpose_nd ?V"
  have l: "assemble (reduce \<lparr>fom = MatrixModel_TF (NumpyMatrixOperator A) (NumpyMatrixOperator B)
                               (NumpyMatrixOperator C), RB = pod_basis\<rparr>) s
      = add_nd (scalar_mul s (matprod ?Vt (matprod (eye n) ?V)))
               (scalar_mul (- 1) (matprod ?Vt (matprod A ?V)))"
    by (simp add: assemble_def reduce_def MatrixModel_TF_def Let_def A)
  have "matprod (add_nd (scalar_mul s (eye n)) (scalar_mul (- 1) A)) ?V
      = add_nd (matprod (scalar_mul s (eye n)) ?V) (matprod (scalar_mul (- 1) A) ?V)"
    by (rule matprod_add_left) (simp_all add: A pod_basis eye_def)
  also have "\<dots> = add_nd (scalar_mul s (matprod (eye n) ?V)) (scalar_mul (- 1) (matprod A ?V))"
    by (simp add: matprod_scalar_left)
  finally have "matprod ?Vt (matprod (add_nd (scalar_mul s (eye n)) (scalar_mul (- 1) A)) ?V)
      = matprod ?Vt (add_nd (scalar_mul s (matprod (eye n) ?V)) (scalar_mul (- 1) (matprod A ?V)))"
    by simp
  also have "\<dots> = add_nd (matprod ?Vt (scalar_mul s (matprod (eye n) ?V)))
                          (matprod ?Vt (scalar_mul (- 1) (matprod A ?V)))"
    by (rule matprod_add_right) (simp_all add: A pod_basis eye_def)
  also have "\<dots> = add_nd (scalar_mul s (matprod ?Vt (matprod (eye n) ?V)))
                          (scalar_mul (- 1) (matprod ?Vt (matprod A ?V)))"
    by (simp add: matprod_scalar_right A pod_basis eye_def)
  finally show ?thesis using l by simp
qed

text \<open>
  The snapshot loop returns the array whose rows are the solutions at the training
  parameters, in their order, below the rows it started with.
\<close>

lemma solve_all_snapshots:
  assumes sol: "\<And>t. t \<in> set ts \<Longrightarrow> slv (assemble m t) (rhs m) = Inr (sol t)"
    and acc: "wf_nd acc" "ncols acc = solution_dim m"
  shows "solve_all slv m ts acc
     = Inr (mk (nrows acc + length ts) (ncols acc)
             (\<lambda>i j. if i < nrows acc then elem acc i j
                     else elem (sol (ts ! (i - nrows acc))) j 0))"
  using assms
proof (induction ts arbitrary: acc)
  case Nil
  have "mk (nrows acc) (ncols acc) (\<lambda>i j. if i < nrows acc then elem acc i j
            else elem (sol ([] ! (i - nrows acc))) j 0) = mk (nrows acc) (ncols acc) (elem acc)"
    by (rule mk_cong) simp
  then show ?case using mk_elem[OF Nil.prems(2)] by simp
next
  case (Cons t ts)
  let ?u = "mk 1 (solution_dim m) (\<lambda>i j. elem (sol t) j 0)"
  let ?acc = "append_va acc ?u"
  have u: "solve slv m t = Inr ?u" using Cons.prems(1)[of t] by (simp add: solve_def)
  have w: "wf_nd ?acc" and c: "ncols ?acc = solution_dim m" and r: "nrows ?acc = nrows acc + 1"
    using Cons.prems(3) by (simp_all add: append_va_def)
  have rest: "solve_all slv m ts ?acc
     = Inr (mk (nrows ?acc + length ts) (ncols ?acc)
             (\<lambda>i j. if i < nrows ?acc then elem ?acc i j
                     else elem (sol (ts ! (i - nrows ?acc))) j 0))"
    by (rule Cons.IH[OF _ w c]) (simp add: Cons.prems(1))
  have "mk (nrows ?acc + length ts) (ncols ?acc)
             (\<lambda>i j. if i < nrows ?acc then elem ?acc i j
                     else elem (sol (ts ! (i - nrows ?acc))) j 0)
      = mk (nrows acc + length (t # ts)) (ncols acc)
             (\<lambda>i j. if i < nrows acc then elem acc i j
                     else elem (sol ((t # ts) ! (i - nrows acc))) j 0)"
  proof -
    have "mk (nrows acc + length (t # ts)) (ncols acc)
             (\<lambda>i j. if i < nrows ?acc then elem ?acc i j
                     else elem (sol (ts ! (i - nrows ?acc))) j 0)
      = mk (nrows acc + length (t # ts)) (ncols acc)
             (\<lambda>i j. if i < nrows acc then elem acc i j
                     else elem (sol ((t # ts) ! (i - nrows acc))) j 0)"
    proof (rule mk_cong)
      fix i j
      assume i: "i < nrows acc + length (t # ts)" and j: "j < ncols acc"
      show "(if i < nrows ?acc then elem ?acc i j else elem (sol (ts ! (i - nrows ?acc))) j 0)
          = (if i < nrows acc then elem acc i j else elem (sol ((t # ts) ! (i - nrows acc))) j 0)"
      proof (cases "i < nrows acc")
        case True
        then show ?thesis using j by (simp add: append_va_def)
      next
        case False
        show ?thesis
        proof (cases "i = nrows acc")
          case True
          then show ?thesis using j Cons.prems(3) by (simp add: append_va_def)
        next
          case ne: False
          with False have gt: "nrows acc < i" by simp
          then obtain d where d: "i - nrows acc = Suc d" by (cases "i - nrows acc") auto
          then have "i - nrows ?acc = d" using r by simp
          then show ?thesis using gt d r by simp
        qed
      qed
    qed
    then show ?thesis using r by (simp add: append_va_def)
  qed
  with rest u show ?case by simp
qed

lemma nrows_adjoint [simp]: "nrows (adjoint M) = ncols M"
  by (simp add: adjoint_def conjugate_def)

lemma ncols_adjoint [simp]: "ncols (adjoint M) = nrows M"
  by (simp add: adjoint_def conjugate_def)

text \<open>
  The pipeline at full order, in exact arithmetic. For a SISO system \<open>(A, B, C)\<close> of order \<open>n\<close> and
  a parameter \<open>s\<close> at which \<open>s I - A\<close> is invertible, let the full-order solver return
  a vector \<open>sol t\<close> at every training parameter \<open>t\<close>, and let the POD of the array of
  these snapshots return \<open>n\<close> modes that are orthonormal for the Hermitian inner
  product (the array \<open>pod_basis\<close> of the modes, one per row, is unitary: this covers the
  real orthonormal bases and the complex ones). Then the offline phase returns the
  reduced model, and the output of the reduced model at \<open>s\<close> is equal to
  \<open>C (s I - A)\<^sup>-\<^sup>1 B\<close>, which is also what \<open>TF_exact\<close> returns on the three arrays. The
  reduced solve is assumed to return a solution \<open>z\<close> of the reduced system, and
  \<open>np.linalg.inv\<close> the inverse \<open>Gi\<close> of \<open>s I - A\<close>. Rounding is outside this statement.
\<close>

lemma TFROM_full_order_exact:
  fixes A B C pod_basis :: ndarray and n :: nat and s :: complex
  defines "model_TF \<equiv> MatrixModel_TF (NumpyMatrixOperator A) (NumpyMatrixOperator B) (NumpyMatrixOperator C)"
    and "G \<equiv> add_nd (scalar_mul s (eye n)) (scalar_mul (- 1) A)"
    and "rom \<equiv> reduce \<lparr>fom = MatrixModel_TF (NumpyMatrixOperator A) (NumpyMatrixOperator B)
                               (NumpyMatrixOperator C), RB = pod_basis\<rparr>"
  assumes A: "has_shape A n n" and B: "has_shape B n 1" and C: "has_shape C 1 n"
    and ts: "TFROM_training_set rng snap g = Inr (training_set, g')"
    and fsolve: "\<And>t. t \<in> set training_set \<Longrightarrow>
                   slv (add_nd (scalar_mul t (eye n)) (scalar_mul (- 1) A)) B = Inr (sol t)"
    and pod: "pod (mk (length training_set) n (\<lambda>i j. elem (sol (training_set ! i)) j 0))
                rorder atol rtol = Inr (pod_basis, svals)"
    and basis: "has_shape pod_basis n n" "matprod pod_basis (adjoint pod_basis) = eye n"
               "matprod (adjoint pod_basis) pod_basis = eye n"
    and inv: "linalg_inv G = Inr Gi" "has_shape Gi n n" "matprod Gi G = eye n" "matprod G Gi = eye n"
    and rsolve: "slv (assemble rom s) (rhs rom) = Inr z" "has_shape z n 1"
                "matprod (assemble rom s) z = rhs rom"
  shows "TFROM slv pod \<lparr>lti_A = A, lti_B = B, lti_C = C\<rparr> rng snap rorder atol rtol g = Inr (rom, g')
       \<and> model_output slv rom s = Inr (matprod (matprod C Gi) B)
       \<and> TF_exact linalg_inv (NdArray A) (NdArray B) (NdArray C) s = Inr (matprod (matprod C Gi) B)"
proof -
  let ?V = "transpose_nd pod_basis"
  have shA: "wf_nd A" "nrows A = n" "ncols A = n" using A by (simp_all add: has_shape_def)
  have shB: "wf_nd B" "nrows B = n" "ncols B = 1" using B by (simp_all add: has_shape_def)
  have shC: "wf_nd C" "nrows C = 1" "ncols C = n" using C by (simp_all add: has_shape_def)
  have shR: "wf_nd pod_basis" "nrows pod_basis = n" "ncols pod_basis = n" using basis(1) by (simp_all add: has_shape_def)
  have shGi: "wf_nd Gi" "nrows Gi = n" "ncols Gi = n" using inv(2) by (simp_all add: has_shape_def)
  have shz: "wf_nd z" "nrows z = n" "ncols z = 1" using rsolve(2) by (simp_all add: has_shape_def)
  have tt: "transpose_nd ?V = pod_basis" by (rule transpose_transpose[OF shR(1)])
  have dimF: "solution_dim model_TF = n"
    by (simp add: model_TF_def MatrixModel_TF_def Let_def solution_dim_def shA)
  have rhsF: "rhs model_TF = B" by (simp add: model_TF_def MatrixModel_TF_def Let_def)
  have "solve_all slv model_TF training_set (empty_va (solution_dim model_TF))
     = Inr (mk (nrows (empty_va (solution_dim model_TF)) + length training_set)
             (ncols (empty_va (solution_dim model_TF)))
             (\<lambda>i j. if i < nrows (empty_va (solution_dim model_TF))
                     then elem (empty_va (solution_dim model_TF)) i j
                     else elem (sol (training_set ! (i - nrows (empty_va (solution_dim model_TF))))) j 0))"
  proof (rule solve_all_snapshots)
    fix t assume "t \<in> set training_set"
    then show "slv (assemble model_TF t) (rhs model_TF) = Inr (sol t)"
      using fsolve[of t] rhsF by (simp add: model_TF_def assemble_MatrixModel_TF shA)
  qed (simp_all add: empty_va_def)
  then have snaps: "solve_all slv model_TF training_set (empty_va (solution_dim model_TF))
     = Inr (mk (length training_set) n (\<lambda>i j. elem (sol (training_set ! i)) j 0))"
    by (simp add: empty_va_def dimF)
  have offline: "TFROM slv pod \<lparr>lti_A = A, lti_B = B, lti_C = C\<rparr> rng snap rorder atol rtol g = Inr (rom, g')"
    using ts snaps pod by (simp add: TFROM_def Let_def model_TF_def rom_def)
  have asm: "assemble rom s = matprod (transpose_nd ?V) (matprod G ?V)"
    unfolding rom_def G_def by (rule assemble_reduce_MatrixModel_TF) (simp_all add: shA shR)
  have rhs: "rhs rom = matprod (transpose_nd ?V) B"
    by (simp add: rom_def reduce_def Let_def MatrixModel_TF_def)
  have Vz: "matprod ?V z = matprod Gi B"
  proof (rule galerkin_full_order[where n = n and G = G and L = "adjoint pod_basis"])
    show "matprod (adjoint pod_basis) (transpose_nd ?V) = eye n" using basis(3) tt by simp
    show "matprod (matprod (transpose_nd ?V) (matprod G ?V)) z = matprod (transpose_nd ?V) B"
      using rsolve(3) asm rhs by simp
  qed (simp_all add: shR shGi shB shz G_def inv(3)[unfolded G_def])
  have dim: "solution_dim rom = n"
    by (simp add: rom_def reduce_def Let_def MatrixModel_TF_def solution_dim_def shR)
  have outf: "output_functional rom = Some (matprod C ?V)"
    by (simp add: rom_def reduce_def Let_def MatrixModel_TF_def)
  have u: "transpose_nd (mk 1 n (\<lambda>i j. elem z j 0)) = z"
  proof -
    have "transpose_nd (mk 1 n (\<lambda>i j. elem z j 0)) = mk (nrows z) (ncols z) (elem z)"
      unfolding transpose_nd_def by (simp add: shz, intro mk_cong) simp
    then show ?thesis using mk_elem[OF shz(1)] by simp
  qed
  have "matprod (matprod C ?V) z = matprod C (matprod ?V z)"
    by (rule matprod_assoc) (simp_all add: shC shR shz)
  also have "\<dots> = matprod C (matprod Gi B)" by (simp add: Vz)
  also have "\<dots> = matprod (matprod C Gi) B"
    by (rule matprod_assoc[symmetric]) (simp_all add: shC shGi shB)
  finally have prod: "matprod (matprod C ?V) z = matprod (matprod C Gi) B" .
  have one: "transpose_nd (matprod (matprod C Gi) B) = matprod (matprod C Gi) B"
    by (rule transpose_1x1) (simp_all add: shC shB)
  have online: "model_output slv rom s = Inr (matprod (matprod C Gi) B)"
    using rsolve(1) u prod one by (simp add: model_output_def solve_def outf dim)
  have direct: "TF_exact linalg_inv (NdArray A) (NdArray B) (NdArray C) s
           = Inr (matprod (matprod C Gi) B)"
    using inv(1) subtract_square[of A n s]
    by (simp add: TF_exact_def Let_def shA shC shGi shB matmul_def G_def)
  from offline online direct show ?thesis by simp
qed


section \<open>Orthonormalization of orthonormal vectors\<close>

lemma axpy_zero: "length q = length v \<Longrightarrow> axpy 0 q v = v"
  unfolding axpy_def
proof (induction q arbitrary: v)
  case Nil then show ?case by simp
next
  case (Cons a q) then show ?case by (cases v) auto
qed

lemma orthogonalize_pass_id:
  assumes "\<forall>q\<in>set Q. inner_vec q v = 0 \<and> length q = length v"
  shows "orthogonalize_pass Q v = v"
  using assms
proof (induction Q)
  case Nil then show ?case by simp
next
  case (Cons q Q) then show ?case by (simp add: axpy_zero)
qed

lemma sum_list_cmod_sq: "complex_of_real (sum_list (map (\<lambda>a. (cmod a) ^ 2) v)) = inner_vec v v"
proof -
  have "inner_vec v v = sum_list (map (\<lambda>a. cnj a * a) v)"
    unfolding inner_vec_def by (induction v) auto
  also have "\<dots> = sum_list (map (\<lambda>a. complex_of_real ((cmod a) ^ 2)) v)"
  proof -
    have "cnj a * a = complex_of_real ((cmod a) ^ 2)" for a
      by (metis complex_norm_square mult.commute)
    then show ?thesis by (simp only:)
  qed
  also have "\<dots> = complex_of_real (sum_list (map (\<lambda>a. (cmod a) ^ 2) v))"
    by (induction v) (simp_all del: of_real_power)
  finally show ?thesis by (simp only:)
qed

lemma norm_vec_unit: "inner_vec v v = 1 \<Longrightarrow> norm_vec v = 1"
proof -
  assume "inner_vec v v = 1"
  then have "complex_of_real (sum_list (map (\<lambda>a. (cmod a) ^ 2) v)) = complex_of_real 1"
    by (simp add: sum_list_cmod_sq)
  then have "sum_list (map (\<lambda>a. (cmod a) ^ 2) v) = 1" by (simp only: of_real_eq_iff)
  then show ?thesis by (simp add: norm_vec_def)
qed

lemma scal_one: "scal 1 v = v"
  by (simp add: scal_def)

lemma orthonormalize_column_id:
  assumes unit: "inner_vec v v = 1"
    and orth: "\<forall>q\<in>set Q. inner_vec q v = 0 \<and> length q = length v"
    and tol: "atol < 1" "rtol < 1"
  shows "orthonormalize_column norm_drop atol rtol check_tol Q v = Inr v"
proof -
  have n: "norm_vec v = 1" by (rule norm_vec_unit[OF unit])
  have p: "orthogonalize_pass Q v = v" by (rule orthogonalize_pass_id[OF orth])
  show ?thesis using tol by (simp add: orthonormalize_column_def Let_def n p scal_one)
qed

lemma orthonormal_list_unit:
  "orthonormal_list (Q @ v # vs) \<Longrightarrow> inner_vec v v = 1"
proof -
  assume a: "orthonormal_list (Q @ v # vs)"
  have "length Q < length (Q @ v # vs)" by simp
  with a have "inner_vec ((Q @ v # vs) ! length Q) ((Q @ v # vs) ! length Q) = 1"
    unfolding orthonormal_list_def by (metis (full_types))
  then show ?thesis by simp
qed

lemma orthonormal_list_orth:
  assumes a: "orthonormal_list (Q @ v # vs)" and q: "q \<in> set Q"
  shows "inner_vec q v = 0 \<and> length q = length v"
proof -
  from q obtain i where i: "i < length Q" "Q ! i = q" by (auto simp: in_set_conv_nth)
  have li: "i < length (Q @ v # vs)" using i by simp
  have lq: "length Q < length (Q @ v # vs)" by simp
  have ne: "i \<noteq> length Q" using i by simp
  from a li lq have "inner_vec ((Q @ v # vs) ! i) ((Q @ v # vs) ! length Q)
        = (if i = length Q then 1 else 0)
      \<and> length ((Q @ v # vs) ! i) = length ((Q @ v # vs) ! length Q)"
    unfolding orthonormal_list_def by blast
  moreover have "(Q @ v # vs) ! i = q" using i by (simp add: nth_append)
  moreover have "(Q @ v # vs) ! length Q = v" by simp
  ultimately show ?thesis using ne by simp
qed

lemma gram_schmidt_loop_id:
  assumes "tol_a < 1" "tol_r < 1" and "orthonormal_list (Q @ vs)"
  shows "gram_schmidt_loop norm_drop tol_a tol_r check_tol Q vs = Inr (Q @ vs)"
  using assms(3)
proof (induction vs arbitrary: Q)
  case Nil then show ?case by simp
next
  case (Cons v vs)
  have unit: "inner_vec v v = 1" by (rule orthonormal_list_unit[OF Cons.prems])
  have orth: "\<forall>q\<in>set Q. inner_vec q v = 0 \<and> length q = length v"
    using orthonormal_list_orth[OF Cons.prems] by blast
  have col: "orthonormalize_column norm_drop tol_a tol_r check_tol Q v = Inr v"
    by (rule orthonormalize_column_id[OF unit orth assms(1,2)])
  have "orthonormal_list ((Q @ [v]) @ vs)" using Cons.prems by simp
  then have "gram_schmidt_loop norm_drop tol_a tol_r check_tol (Q @ [v]) vs = Inr ((Q @ [v]) @ vs)"
    by (rule Cons.IH)
  then show ?case using col by simp
qed

lemma orthonormal_vectors_nth:
  "orthonormal_vectors Q \<Longrightarrow> i < nrows Q \<Longrightarrow> j < nrows Q \<Longrightarrow>
     inner_vec (rows Q ! i) (rows Q ! j) = (if i = j then 1 else 0)"
  by (simp add: orthonormal_vectors_def list_all_iff)

lemma gram_schmidt_orthonormal:
  assumes w: "wf_nd Q" and o: "orthonormal_vectors Q" and tol: "tol_a < 1" "tol_r < 1"
  shows "gram_schmidt norm_drop tol_a tol_r check_tol Q = Inr Q"
proof -
  have len: "length (rows Q) = nrows Q" and row: "\<And>i. i < nrows Q \<Longrightarrow> length (rows Q ! i) = ncols Q"
    using w by (simp_all add: wf_nd_def list_all_length)
  have "orthonormal_list (rows Q)"
    unfolding orthonormal_list_def using len row orthonormal_vectors_nth[OF o] by simp
  then have "gram_schmidt_loop norm_drop tol_a tol_r check_tol [] (rows Q) = Inr ([] @ rows Q)"
    by (intro gram_schmidt_loop_id[OF tol]) simp
  then show ?thesis using len by (simp add: gram_schmidt_def)
qed

text \<open>
  C9. For an array \<open>Q\<close> whose vectors are exactly orthonormal, the orthonormalization
  returns \<open>Q\<close> itself in exact arithmetic, whatever the test for the drop of the norm:
  no projection changes a vector, and every norm is one. So \<open>Gram\<close>, which calls it
  with \<open>atol = 0\<close>, \<open>rtol = 0\<close> and \<open>check_tol = 1e-10\<close>, returns \<open>Q\<close> as its first
  component (transposed when NumPy arrays are asked for).
\<close>

theorem Gram_orthonormal_idempotent:
  assumes w: "wf_nd Q" and o: "orthonormal_vectors Q"
    and W: "gram_schmidt norm_drop 0 0 (1 / 10 ^ 10) W = Inr Q_W"
  shows "gram_schmidt norm_drop 0 0 (1 / 10 ^ 10) Q = Inr Q
       \<and> Gram (gram_schmidt norm_drop 0 0 (1 / 10 ^ 10)) linalg_inv Q W False numpy
           = Inr (if numpy then (Numpy (transpose_nd Q), Numpy (transpose_nd Q_W))
                  else (NumpyVectorArray Q, NumpyVectorArray Q_W))"
proof -
  have g: "gram_schmidt norm_drop 0 0 (1 / 10 ^ 10) Q = Inr Q"
    by (rule gram_schmidt_orthonormal[OF w o]) simp_all
  then show ?thesis using W by (simp add: Gram_def Let_def)
qed

text \<open>
  The theorem at two orthonormal complex vectors, \<open>(3/5, 4/5 \<i>)\<close> and
  \<open>(4/5 \<i>, 3/5)\<close>, with a second pass whenever the norm drops by more than
  \<open>check_tol\<close>, relatively.
\<close>

theorem Gram_orthonormal_idempotent_witness:
  "gram_schmidt (\<lambda>check_tol old new. new < (1 - check_tol) * old) 0 0 (1 / 10 ^ 10)
      \<lparr>nrows = 2, ncols = 2, rows = [[3 / 5, 4 / 5 * \<i>], [4 / 5 * \<i>, 3 / 5]]\<rparr>
     = Inr \<lparr>nrows = 2, ncols = 2, rows = [[3 / 5, 4 / 5 * \<i>], [4 / 5 * \<i>, 3 / 5]]\<rparr>
   \<and> Gram (gram_schmidt (\<lambda>check_tol old new. new < (1 - check_tol) * old) 0 0 (1 / 10 ^ 10)) small_inv
      \<lparr>nrows = 2, ncols = 2, rows = [[3 / 5, 4 / 5 * \<i>], [4 / 5 * \<i>, 3 / 5]]\<rparr>
      \<lparr>nrows = 2, ncols = 2, rows = [[1, 0], [0, 1]]\<rparr> False False
     = Inr (NumpyVectorArray \<lparr>nrows = 2, ncols = 2, rows = [[3 / 5, 4 / 5 * \<i>], [4 / 5 * \<i>, 3 / 5]]\<rparr>,
            NumpyVectorArray \<lparr>nrows = 2, ncols = 2, rows = [[1, 0], [0, 1]]\<rparr>)"
proof -
  let ?Q = "\<lparr>nrows = 2, ncols = 2, rows = [[3 / 5, 4 / 5 * \<i>], [4 / 5 * \<i>, 3 / 5]]\<rparr> :: ndarray"
  let ?W = "\<lparr>nrows = 2, ncols = 2, rows = [[1, 0], [0, 1]]\<rparr> :: ndarray"
  let ?nd = "\<lambda>check_tol old new :: real. new < (1 - check_tol) * old"
  have wQ: "wf_nd ?Q" and wW: "wf_nd ?W" by (simp_all add: wf_nd_def)
  have oQ: "orthonormal_vectors ?Q"
    by (simp add: orthonormal_vectors_def inner_vec_def eval_nat_numeral)
  have oW: "orthonormal_vectors ?W"
    by (simp add: orthonormal_vectors_def inner_vec_def eval_nat_numeral)
  have W: "gram_schmidt ?nd 0 0 (1 / 10 ^ 10) ?W = Inr ?W"
    by (rule gram_schmidt_orthonormal[OF wW oW]) simp_all
  from Gram_orthonormal_idempotent[where norm_drop = ?nd and linalg_inv = small_inv
      and numpy = False, OF wQ oQ W]
  show ?thesis by simp
qed

section \<open>Projection matrices against their closed forms\<close>

text \<open>
  C3 at a system with a complex output matrix that is given as an operator: \<open>A = [[0]]\<close>
  and \<open>B = [[1]]\<close> as arrays, \<open>C = [[\<i>]]\<close> as a \<open>NumpyMatrixOperator\<close>, one training
  parameter and one interpolation point \<open>1\<close>, weights \<open>1\<close>, and reduced orders equal to
  the full order \<open>1\<close>. The closed form of \<open>exact\<close> has \<open>W = (s\<^sup>* I - A\<^sup>H)\<^sup>-\<^sup>1 C\<^sup>T c = [[\<i>]]\<close>,
  but the builder returns \<open>W = [[-\<i>]]\<close>: \<open>MatrixModel\<close> takes \<open>C.H\<close>, the conjugate
  transpose, for an operator. With the same \<open>C\<close> given as an array, for which
  \<open>MatrixModel\<close> takes \<open>C.T\<close>, the builder and the closed form agree.
\<close>

theorem projection_matrices_operator_C_conjugated:
  "projection_matrices_of small_solver unit_svd
      (NdArray \<lparr>nrows = 1, ncols = 1, rows = [[0]]\<rparr>)
      (NdArray \<lparr>nrows = 1, ncols = 1, rows = [[1]]\<rparr>)
      (NumpyMatrixOperator \<lparr>nrows = 1, ncols = 1, rows = [[\<i>]]\<rparr>) [1] 1 1 [1] [1] [1] True
     = Inr (Numpy \<lparr>nrows = 1, ncols = 1, rows = [[1]]\<rparr>,
            Numpy \<lparr>nrows = 1, ncols = 1, rows = [[- \<i>]]\<rparr>)
   \<and> exact small_inv
      (NdArray \<lparr>nrows = 1, ncols = 1, rows = [[0]]\<rparr>)
      (NdArray \<lparr>nrows = 1, ncols = 1, rows = [[1]]\<rparr>)
      (NumpyMatrixOperator \<lparr>nrows = 1, ncols = 1, rows = [[\<i>]]\<rparr>) [1] [1] [1] True
     = Inr (Numpy \<lparr>nrows = 1, ncols = 1, rows = [[1]]\<rparr>,
            Numpy \<lparr>nrows = 1, ncols = 1, rows = [[\<i>]]\<rparr>)
   \<and> projection_matrices_of small_solver unit_svd
      (NdArray \<lparr>nrows = 1, ncols = 1, rows = [[0]]\<rparr>)
      (NdArray \<lparr>nrows = 1, ncols = 1, rows = [[1]]\<rparr>)
      (NdArray \<lparr>nrows = 1, ncols = 1, rows = [[\<i>]]\<rparr>) [1] 1 1 [1] [1] [1] True
     = Inr (Numpy \<lparr>nrows = 1, ncols = 1, rows = [[1]]\<rparr>,
            Numpy \<lparr>nrows = 1, ncols = 1, rows = [[\<i>]]\<rparr>)
   \<and> exact small_inv
      (NdArray \<lparr>nrows = 1, ncols = 1, rows = [[0]]\<rparr>)
      (NdArray \<lparr>nrows = 1, ncols = 1, rows = [[1]]\<rparr>)
      (NdArray \<lparr>nrows = 1, ncols = 1, rows = [[\<i>]]\<rparr>) [1] [1] [1] True
     = Inr (Numpy \<lparr>nrows = 1, ncols = 1, rows = [[1]]\<rparr>,
            Numpy \<lparr>nrows = 1, ncols = 1, rows = [[\<i>]]\<rparr>)"
  by (simp add: projection_matrices_of_def MatrixReductor_def ProjectionMatrices_def exact_def nd_eval)

end
